theory Spec2Isabelle
  imports Complex_Main "HOL-Library.AList"
begin

section \<open>Python values, exceptions and builtins\<close>

text \<open>
  Exceptions are values. Every constructor below is a subclass of Python's
  \<open>Exception\<close>, so an \<open>except Exception\<close> clause catches each of them.
  pydantic's \<open>ValidationError\<close> derives from \<open>ValueError\<close>, which
  \<open>is_ValueError\<close> records.  \<open>Raised\<close> stands for any other exception a
  user-supplied callable may raise.
\<close>

datatype exn =
    ValueError
  | TypeError
  | IndexError
  | AttributeError
  | ValidationError
  | Raised string

definition is_ValueError :: "exn \<Rightarrow> bool" where
  "is_ValueError e = (e = ValueError \<or> e = ValidationError)"

definition is_TypeError :: "exn \<Rightarrow> bool" where
  "is_TypeError e = (e = TypeError)"

text \<open>
  \<open>xs[i]\<close> on a Python list: a negative index counts from the end, an index out of
  range raises \<open>IndexError\<close>.
\<close>

definition py_getitem :: "'a list \<Rightarrow> int \<Rightarrow> exn + 'a" where
  "py_getitem xs i =
     (if 0 \<le> i \<and> i < int (length xs) then Inr (xs ! nat i)
      else if - int (length xs) \<le> i \<and> i < 0 then Inr (xs ! nat (int (length xs) + i))
      else Inl IndexError)"

text \<open>\<open>xs[i:]\<close>: a slice never raises; a negative start counts from the end and is clamped.\<close>

definition py_slice_from :: "'a list \<Rightarrow> int \<Rightarrow> 'a list" where
  "py_slice_from xs i =
     (if 0 \<le> i then drop (nat i) xs else drop (nat (max (int (length xs) + i) 0)) xs)"

text \<open>
  Strings are lists of 8-bit characters, read as the code points 0..255 of a Python
  \<open>str\<close>.  \<open>py_isspace\<close> lists the code points below 256 that \<open>str.strip\<close>,
  \<open>int\<close> and \<open>float\<close> treat as white space.
\<close>

definition py_isspace :: "char \<Rightarrow> bool" where
  "py_isspace c = (of_char c \<in> {9, 10, 11, 12, 13, 28, 29, 30, 31, 32, 133, 160 :: nat})"

definition py_strip :: "string \<Rightarrow> string" where
  "py_strip s = rev (dropWhile py_isspace (rev (dropWhile py_isspace s)))"

definition is_digit :: "char \<Rightarrow> bool" where
  "is_digit c = (48 \<le> (of_char c :: nat) \<and> (of_char c :: nat) \<le> 57)"

definition digit_val :: "char \<Rightarrow> nat" where
  "digit_val c = of_char c - 48"

text \<open>
  A digit group of a numeric literal: decimal digits, with single underscores allowed
  between two digits only.  The flag says whether the previous character was a digit.
\<close>

fun py_digits :: "string \<Rightarrow> bool \<Rightarrow> nat \<Rightarrow> nat option" where
  "py_digits [] prev acc = (if prev then Some acc else None)"
| "py_digits (c # cs) prev acc =
     (if is_digit c then py_digits cs True (acc * 10 + digit_val c)
      else if c = CHR ''_'' \<and> prev then py_digits cs False acc
      else None)"

text \<open>
  \<open>int(s)\<close> for a string: surrounding white space is stripped, one sign is allowed,
  then a digit group.  Anything else raises \<open>ValueError\<close>.  (The interpreter's
  configurable limit on the number of digits is a \<open>ValueError\<close> as well and is not
  modelled.)
\<close>

definition py_int :: "string \<Rightarrow> exn + int" where
  "py_int s =
     (case py_strip s of
        [] \<Rightarrow> Inl ValueError
      | c # cs \<Rightarrow>
          if c = CHR ''-'' then
            (case py_digits cs False 0 of None \<Rightarrow> Inl ValueError | Some n \<Rightarrow> Inr (- int n))
          else if c = CHR ''+'' then
            (case py_digits cs False 0 of None \<Rightarrow> Inl ValueError | Some n \<Rightarrow> Inr (int n))
          else
            (case py_digits (c # cs) False 0 of None \<Rightarrow> Inl ValueError | Some n \<Rightarrow> Inr (int n)))"

text \<open>\<open>str.lower\<close> on the code points below 256.\<close>

definition py_lower_char :: "char \<Rightarrow> char" where
  "py_lower_char c =
     (let n = (of_char c :: nat)
      in if (65 \<le> n \<and> n \<le> 90) \<or> (192 \<le> n \<and> n \<le> 222 \<and> n \<noteq> 215)
         then char_of (n + 32) else c)"

definition py_lower :: "string \<Rightarrow> string" where
  "py_lower s = map py_lower_char s"

text \<open>
  Floats.  A float value is carried as the exact decimal value its literal denotes, or
  as an infinity or a NaN; rounding to binary64 is not modelled.
\<close>

datatype pyfloat = Finite rat | PosInf | NegInf | NaN

definition pow10 :: "int \<Rightarrow> rat" where
  "pow10 k = (if 0 \<le> k then 10 ^ nat k else 1 / 10 ^ nat (- k))"

text \<open>An optional digit group: empty is allowed and denotes no digits.\<close>

definition py_digits_opt :: "string \<Rightarrow> nat option" where
  "py_digits_opt s = (if s = [] then Some 0 else py_digits s False 0)"

definition py_exponent :: "string \<Rightarrow> int option" where
  "py_exponent s =
     (case s of
        [] \<Rightarrow> None
      | c # cs \<Rightarrow>
          if c = CHR ''-'' then map_option (\<lambda>n. - int n) (py_digits cs False 0)
          else if c = CHR ''+'' then map_option int (py_digits cs False 0)
          else map_option int (py_digits (c # cs) False 0))"

definition is_exp_char :: "char \<Rightarrow> bool" where
  "is_exp_char c = (c = CHR ''e'' \<or> c = CHR ''E'')"

text \<open>The unsigned part of a float literal: \<open>digits [. digits] [e [sign] digits]\<close>.\<close>

definition py_float_unsigned :: "string \<Rightarrow> rat option" where
  "py_float_unsigned s =
     (let mant = takeWhile (\<lambda>c. \<not> is_exp_char c) s;
          rest = dropWhile (\<lambda>c. \<not> is_exp_char c) s;
          ipart = takeWhile (\<lambda>c. c \<noteq> CHR ''.'') mant;
          fpart = (case dropWhile (\<lambda>c. c \<noteq> CHR ''.'') mant of [] \<Rightarrow> [] | _ # f \<Rightarrow> f);
          ex = (if rest = [] then Some 0 else py_exponent (tl rest))
      in if ipart = [] \<and> fpart = [] then None
         else (case (py_digits_opt ipart, py_digits_opt fpart, ex) of
                 (Some i, Some f, Some e) \<Rightarrow>
                   (let nf = length (filter is_digit fpart)
                    in Some (of_nat (i * 10 ^ nf + f) * pow10 (e - int nf)))
               | _ \<Rightarrow> None))"

definition py_float_abs :: "string \<Rightarrow> pyfloat option" where
  "py_float_abs s =
     (if py_lower s = ''inf'' \<or> py_lower s = ''infinity'' then Some PosInf
      else if py_lower s = ''nan'' then Some NaN
      else map_option Finite (py_float_unsigned s))"

definition float_neg :: "pyfloat \<Rightarrow> pyfloat" where
  "float_neg x = (case x of Finite q \<Rightarrow> Finite (- q) | PosInf \<Rightarrow> NegInf | NegInf \<Rightarrow> PosInf | NaN \<Rightarrow> NaN)"

text \<open>\<open>float(s)\<close> for a string; a literal that does not parse raises \<open>ValueError\<close>.\<close>

definition py_float :: "string \<Rightarrow> exn + pyfloat" where
  "py_float s =
     (case py_strip s of
        [] \<Rightarrow> Inl ValueError
      | c # cs \<Rightarrow>
          if c = CHR ''-'' then
            (case py_float_abs cs of None \<Rightarrow> Inl ValueError | Some x \<Rightarrow> Inr (float_neg x))
          else if c = CHR ''+'' then
            (case py_float_abs cs of None \<Rightarrow> Inl ValueError | Some x \<Rightarrow> Inr x)
          else
            (case py_float_abs (c # cs) of None \<Rightarrow> Inl ValueError | Some x \<Rightarrow> Inr x))"

section \<open>The field cursor (decoders/parsers/field\_parser.py, class FieldIterator)\<close>

text \<open>
  The cursor is a mutable object; every method takes the cursor and returns the
  cursor it leaves behind.  \<open>index\<close> is a Python int and may be negative.
\<close>

record FieldIterator =
  fields_it :: "string list"
  index :: int
  length_it :: int

definition FieldIterator_init :: "string list \<Rightarrow> int \<Rightarrow> FieldIterator" where
  "FieldIterator_init fs start_index =
     \<lparr>fields_it = fs, index = start_index, length_it = int (length fs)\<rparr>"

text \<open>
  \<open>next(default, empty_to_none)\<close>.  The result is a \<open>str\<close> (\<open>Some\<close>) or Python's
  \<open>None\<close>.  The subscript \<open>self.fields[self.index]\<close> is evaluated before the index
  is advanced, so an \<open>IndexError\<close> leaves the cursor as it was.
\<close>

definition next_field ::
  "FieldIterator \<Rightarrow> string option \<Rightarrow> bool \<Rightarrow> exn + (string option \<times> FieldIterator)" where
  "next_field it dflt empty_to_none =
     (if index it < length_it it then
        (case py_getitem (fields_it it) (index it) of
           Inl e \<Rightarrow> Inl e
         | Inr v \<Rightarrow>
             (let it' = it\<lparr>index := index it + 1\<rparr>
              in if empty_to_none \<and> v = [] then Inr (None, it') else Inr (Some v, it')))
      else Inr (dflt, it))"

text \<open>\<open>int(value)\<close> and \<open>float(value)\<close> on what \<open>next\<close> returned: \<open>None\<close> raises \<open>TypeError\<close>.\<close>

definition py_int_of :: "string option \<Rightarrow> exn + int" where
  "py_int_of v = (case v of None \<Rightarrow> Inl TypeError | Some s \<Rightarrow> py_int s)"

definition py_float_of :: "string option \<Rightarrow> exn + pyfloat" where
  "py_float_of v = (case v of None \<Rightarrow> Inl TypeError | Some s \<Rightarrow> py_float s)"

definition next_int :: "FieldIterator \<Rightarrow> int \<Rightarrow> exn + (int \<times> FieldIterator)" where
  "next_int it dflt =
     (case next_field it (Some []) False of
        Inl e \<Rightarrow> Inl e
      | Inr (v, it') \<Rightarrow>
          if v = Some [] then Inr (dflt, it')
          else (case py_int_of v of
                  Inr n \<Rightarrow> Inr (n, it')
                | Inl e \<Rightarrow> if is_ValueError e \<or> is_TypeError e then Inr (dflt, it') else Inl e))"

definition next_float :: "FieldIterator \<Rightarrow> pyfloat \<Rightarrow> exn + (pyfloat \<times> FieldIterator)" where
  "next_float it dflt =
     (case next_field it (Some []) False of
        Inl e \<Rightarrow> Inl e
      | Inr (v, it') \<Rightarrow>
          if v = Some [] then Inr (dflt, it')
          else (case py_float_of v of
                  Inr x \<Rightarrow> Inr (x, it')
                | Inl e \<Rightarrow> if is_ValueError e \<or> is_TypeError e then Inr (dflt, it') else Inl e))"

definition next_bool :: "FieldIterator \<Rightarrow> bool \<Rightarrow> exn + (bool \<times> FieldIterator)" where
  "next_bool it dflt =
     (case next_field it (Some []) False of
        Inl e \<Rightarrow> Inl e
      | Inr (v, it') \<Rightarrow>
          if v = Some [] then Inr (dflt, it')
          else (case v of
                  None \<Rightarrow> Inl AttributeError
                | Some s \<Rightarrow> Inr (s = ''1'' \<or> py_lower s = ''true'', it')))"

text \<open>
  \<open>next_datetime\<close> calls \<open>parseIBDatetime\<close> of \<open>ib_insync.util\<close>, a module that is
  not part of the sources at hand; it is a parameter here.  The \<open>except Exception\<close>
  clause turns whatever it raises into the default.
\<close>

definition next_datetime ::
  "(string \<Rightarrow> exn + 'd) \<Rightarrow> FieldIterator \<Rightarrow> 'd option \<Rightarrow> exn + ('d option \<times> FieldIterator)" where
  "next_datetime parseIBDatetime it dflt =
     (case next_field it (Some []) False of
        Inl e \<Rightarrow> Inl e
      | Inr (v, it') \<Rightarrow>
          if v = Some [] then Inr (dflt, it')
          else (case v of
                  None \<Rightarrow> Inr (dflt, it')
                | Some s \<Rightarrow>
                    (case parseIBDatetime s of
                       Inr d \<Rightarrow> Inr (Some d, it')
                     | Inl e \<Rightarrow> Inr (dflt, it'))))"

definition peek :: "FieldIterator \<Rightarrow> int \<Rightarrow> exn + string option" where
  "peek it offset =
     (let i = index it + offset
      in if i < length_it it then
           (case py_getitem (fields_it it) i of Inl e \<Rightarrow> Inl e | Inr v \<Rightarrow> Inr (Some v))
         else Inr None)"

definition skip :: "FieldIterator \<Rightarrow> int \<Rightarrow> FieldIterator" where
  "skip it count = it\<lparr>index := min (index it + count) (length_it it)\<rparr>"

definition has_more :: "FieldIterator \<Rightarrow> bool" where
  "has_more it = (index it < length_it it)"

definition remaining :: "FieldIterator \<Rightarrow> int" where
  "remaining it = max 0 (length_it it - index it)"

definition consume_rest :: "FieldIterator \<Rightarrow> string list \<times> FieldIterator" where
  "consume_rest it = (py_slice_from (fields_it it) (index it), it\<lparr>index := length_it it\<rparr>)"

text \<open>The cursor an operation leaves behind: unchanged when it raised.\<close>

definition cursor_after :: "FieldIterator \<Rightarrow> exn + ('a \<times> FieldIterator) \<Rightarrow> FieldIterator" where
  "cursor_after it r = (case r of Inl e \<Rightarrow> it | Inr (v, it') \<Rightarrow> it')"

definition returned :: "exn + ('a \<times> FieldIterator) \<Rightarrow> 'a option" where
  "returned r = (case r of Inl e \<Rightarrow> None | Inr (v, it') \<Rightarrow> Some v)"

text \<open>The invariant of the data model: the position never exceeds the length.\<close>

definition cursor_inv :: "FieldIterator \<Rightarrow> bool" where
  "cursor_inv it = (index it \<le> length_it it \<and> length_it it = int (length (fields_it it)))"

section \<open>Decoded values\<close>

text \<open>
  A Python object is its class name and its attribute dictionary; the other
  constructors are the scalar and list values the decoders store.
\<close>

datatype pyval =
    VNone
  | VBool bool
  | VInt int
  | VFloat pyfloat
  | VDecimal rat
  | VStr string
  | VList "pyval list"
  | VObj string "(string \<times> pyval) list"

text \<open>Truthiness of what \<open>next\<close> returns: \<open>None\<close> and the empty string are false.\<close>

definition truthy :: "string option \<Rightarrow> bool" where
  "truthy v = (case v of None \<Rightarrow> False | Some s \<Rightarrow> s \<noteq> [])"

text \<open>An instance of a message class (a pydantic model deriving from \<open>IBMessage\<close>).\<close>

record message =
  class_of :: string
  attrs :: "(string \<times> pyval) list"

definition hasattr_msg :: "message \<Rightarrow> string \<Rightarrow> bool" where
  "hasattr_msg m name = (map_of (attrs m) name \<noteq> None)"

definition message_val :: "message \<Rightarrow> pyval" where
  "message_val m = VObj (class_of m) (attrs m)"

text \<open>Sequencing of a step that may raise.\<close>

definition bind_r :: "exn + 'a \<Rightarrow> ('a \<Rightarrow> exn + 'b) \<Rightarrow> exn + 'b" where
  "bind_r m f = (case m of Inl e \<Rightarrow> Inl e | Inr x \<Rightarrow> f x)"

section \<open>The message registry (decoders/base.py, class MessageRegistry)\<close>

text \<open>
  A message class is its \<open>__name__\<close>, its \<open>MESSAGE_ID\<close> class attribute and its
  class method \<open>from_fields\<close>, which raises, returns \<open>None\<close> or returns a message.
  The classes of the repository have pairwise distinct names, and the handler
  dictionary, keyed by class object in the source, is keyed by that name here.
  A handler receives the wrapper and the message; it returns the wrapper as it left
  it and the exception it raised, if any.
\<close>

record msg_class =
  cls_name :: string
  MESSAGE_ID :: "int option"
  from_fields :: "string list \<Rightarrow> int \<Rightarrow> exn + message option"

record 'w MessageRegistry =
  message_classes :: "int \<rightharpoonup> msg_class"
  handlers :: "string \<rightharpoonup> ('w \<Rightarrow> message \<Rightarrow> 'w \<times> exn option)"

definition MessageRegistry_init :: "'w MessageRegistry" where
  "MessageRegistry_init = \<lparr>message_classes = Map.empty, handlers = Map.empty\<rparr>"

text \<open>
  \<open>register_message(msg_id)(cls)\<close>: the decorator sets \<open>cls.MESSAGE_ID\<close>, stores the
  class under \<open>msg_id\<close> and returns it.  There is no check and no \<open>raise\<close> in it.
\<close>

definition register_message ::
  "'w MessageRegistry \<Rightarrow> int \<Rightarrow> msg_class \<Rightarrow> msg_class \<times> 'w MessageRegistry" where
  "register_message reg msg_id cls =
     (let cls' = cls\<lparr>MESSAGE_ID := Some msg_id\<rparr>
      in (cls', reg\<lparr>message_classes := (message_classes reg)(msg_id \<mapsto> cls')\<rparr>))"

text \<open>\<open>register_handler(message_cls)(func)\<close>: stores the function and returns it.\<close>

definition register_handler ::
  "'w MessageRegistry \<Rightarrow> msg_class \<Rightarrow> ('w \<Rightarrow> message \<Rightarrow> 'w \<times> exn option) \<Rightarrow>
     ('w \<Rightarrow> message \<Rightarrow> 'w \<times> exn option) \<times> 'w MessageRegistry" where
  "register_handler reg message_cls func =
     (func, reg\<lparr>handlers := (handlers reg)(cls_name message_cls \<mapsto> func)\<rparr>)"

definition get_message_class :: "'w MessageRegistry \<Rightarrow> int \<Rightarrow> msg_class option" where
  "get_message_class reg msg_id = message_classes reg msg_id"

definition get_handler ::
  "'w MessageRegistry \<Rightarrow> msg_class \<Rightarrow> ('w \<Rightarrow> message \<Rightarrow> 'w \<times> exn option) option" where
  "get_handler reg message_cls = handlers reg (cls_name message_cls)"

section \<open>The dispatcher (decoders/dispatcher.py, class MessageDispatcher)\<close>

text \<open>
  The statistics dictionary \<open>stats\<close> is spread over the fields
  \<open>messages_processed\<close> .. \<open>processing_time\<close>; \<open>message_counts\<close> is a dictionary
  in insertion order.  \<open>getattr_wrapper\<close> is the attribute lookup of the wrapper
  object: the bound method of that name, if the wrapper has one.  A method receives
  its positional arguments and the wrapper, and returns the wrapper as it left it and
  the exception it raised, if any.  \<open>invocations\<close> is a ghost field: the log of
  every call the dispatcher made to a handler or to a wrapper method.
\<close>

datatype invocation = HandlerCall string | WrapperCall string

record 'w MessageDispatcher =
  wrapper :: 'w
  getattr_wrapper :: "'w \<Rightarrow> string \<Rightarrow> (pyval list \<Rightarrow> 'w \<Rightarrow> 'w \<times> exn option) option"
  server_version :: int
  registry :: "'w MessageRegistry"
  messages_processed :: int
  messages_failed :: int
  validation_errors :: int
  unknown_messages :: int
  processing_time :: real
  message_counts :: "(int \<times> int) list"
  pre_processors :: "(string list \<Rightarrow> exn + string list) list"
  post_processors :: "(message \<Rightarrow> exn option) list"
  invocations :: "invocation list"

definition MessageDispatcher_init ::
  "'w \<Rightarrow> ('w \<Rightarrow> string \<Rightarrow> (pyval list \<Rightarrow> 'w \<Rightarrow> 'w \<times> exn option) option) \<Rightarrow>
     'w MessageRegistry \<Rightarrow> int \<Rightarrow> 'w MessageDispatcher" where
  "MessageDispatcher_init w ga reg sv =
     \<lparr>wrapper = w, getattr_wrapper = ga, server_version = sv, registry = reg,
      messages_processed = 0, messages_failed = 0, validation_errors = 0,
      unknown_messages = 0, processing_time = 0, message_counts = [],
      pre_processors = [], post_processors = [], invocations = []\<rparr>"

text \<open>\<open>self.message_counts.get(msg_id, 0)\<close>.\<close>

definition count_of :: "(int \<times> int) list \<Rightarrow> int \<Rightarrow> int" where
  "count_of counts msg_id = (case map_of counts msg_id of None \<Rightarrow> 0 | Some c \<Rightarrow> c)"

text \<open>\<open>for processor in self.pre_processors: fields = processor(fields)\<close>.\<close>

fun run_pre_processors ::
  "(string list \<Rightarrow> exn + string list) list \<Rightarrow> string list \<Rightarrow> exn + string list" where
  "run_pre_processors [] fs = Inr fs"
| "run_pre_processors (p # ps) fs =
     (case p fs of Inl e \<Rightarrow> Inl e | Inr fs' \<Rightarrow> run_pre_processors ps fs')"

text \<open>\<open>for processor in self.post_processors: processor(message)\<close>.\<close>

fun run_post_processors :: "(message \<Rightarrow> exn option) list \<Rightarrow> message \<Rightarrow> exn option" where
  "run_post_processors [] m = None"
| "run_post_processors (p # ps) m =
     (case p m of Some e \<Rightarrow> Some e | None \<Rightarrow> run_post_processors ps m)"

text \<open>
  The method name derived from a class name in \<open>_call_wrapper_method\<close>:
  \<open>message_name[0].lower() + message_name[1:]\<close>, then a trailing \<open>Message\<close> is
  cut off.  The subscript raises \<open>IndexError\<close> on an empty name.
\<close>

definition endswith :: "string \<Rightarrow> string \<Rightarrow> bool" where
  "endswith s suffix = (length suffix \<le> length s \<and> drop (length s - length suffix) s = suffix)"

definition wrapper_method_name :: "string \<Rightarrow> exn + string" where
  "wrapper_method_name message_name =
     (case message_name of
        [] \<Rightarrow> Inl IndexError
      | c # cs \<Rightarrow>
          (let method_name = py_lower [c] @ cs
           in if endswith method_name ''Message''
              then Inr (take (length method_name - 7) method_name)
              else Inr method_name))"

text \<open>
  \<open>_call_wrapper_with_message\<close>: the arguments are \<open>(message.req_id, message)\<close> when
  the message has a \<open>req_id\<close>, and \<open>(message)\<close> otherwise.
\<close>

definition wrapper_call_args :: "message \<Rightarrow> pyval list" where
  "wrapper_call_args m =
     (case map_of (attrs m) ''req_id'' of
        Some r \<Rightarrow> [r, message_val m]
      | None \<Rightarrow> [message_val m])"

text \<open>
  \<open>_call_wrapper_method\<close>: an exception of the wrapper method is logged and
  swallowed, and no counter changes.
\<close>

definition call_wrapper_method ::
  "'w MessageDispatcher \<Rightarrow> string \<Rightarrow> message \<Rightarrow> exn + 'w MessageDispatcher" where
  "call_wrapper_method d message_name m =
     (case wrapper_method_name message_name of
        Inl e \<Rightarrow> Inl e
      | Inr method_name \<Rightarrow>
          (case getattr_wrapper d (wrapper d) method_name of
             None \<Rightarrow> Inr d
           | Some method \<Rightarrow>
               (let (w', r) = method (wrapper_call_args m) (wrapper d)
                in Inr (d\<lparr>wrapper := w',
                          invocations := invocations d @ [WrapperCall method_name]\<rparr>))))"

text \<open>
  The part of \<open>dispatch\<close> under the comment \<open>Get and call handler\<close>: the
  registered handler is called inside \<open>try\<close>/\<open>except Exception\<close>, which counts a
  failure; without a handler the wrapper method is tried.
\<close>

definition invoke_handler ::
  "'w MessageDispatcher \<Rightarrow> msg_class \<Rightarrow> message \<Rightarrow> exn + 'w MessageDispatcher" where
  "invoke_handler d1 message_cls m =
     (case get_handler (registry d1) message_cls of
        Some handler \<Rightarrow>
          (let (w', r) = handler (wrapper d1) m;
               d2 = d1\<lparr>wrapper := w',
                       invocations := invocations d1 @ [HandlerCall (cls_name message_cls)]\<rparr>
           in Inr (if r = None then d2
                   else d2\<lparr>messages_failed := messages_failed d2 + 1\<rparr>))
      | None \<Rightarrow> call_wrapper_method d1 (cls_name message_cls) m)"

text \<open>
  The part of \<open>dispatch\<close> from the comment \<open>Run pre-processors\<close> to the
  \<open>return message\<close>, once the message id is known and counted.  The result is the
  exception that leaves the \<open>try\<close> block, or the returned value; the dispatcher
  is returned as it was left in both cases.
\<close>

definition dispatch_route ::
  "'w MessageDispatcher \<Rightarrow> int \<Rightarrow> string list \<Rightarrow>
     (exn + message option) \<times> 'w MessageDispatcher" where
  "dispatch_route d1 msg_id fs =
     (case run_pre_processors (pre_processors d1) fs of
        Inl e \<Rightarrow> (Inl e, d1)
      | Inr fs' \<Rightarrow>
          (case get_message_class (registry d1) msg_id of
             None \<Rightarrow> (Inr None, d1\<lparr>unknown_messages := unknown_messages d1 + 1\<rparr>)
           | Some message_cls \<Rightarrow>
               (case from_fields message_cls fs' (server_version d1) of
                  Inl e \<Rightarrow> (Inr None, d1\<lparr>messages_failed := messages_failed d1 + 1\<rparr>)
                | Inr None \<Rightarrow> (Inr None, d1)
                | Inr (Some m) \<Rightarrow>
                    (case invoke_handler d1 message_cls m of
                       Inl e \<Rightarrow> (Inl e, d1)
                     | Inr d3 \<Rightarrow>
                         (case run_post_processors (post_processors d3) m of
                            Some e \<Rightarrow> (Inl e, d3)
                          | None \<Rightarrow> (Inr (Some m), d3))))))"

text \<open>
  The body of the \<open>try\<close> block of \<open>dispatch\<close>: the message id is extracted, the
  record is counted, and the rest is \<open>dispatch_route\<close>.
\<close>

definition dispatch_body ::
  "'w MessageDispatcher \<Rightarrow> string list \<Rightarrow> (exn + message option) \<times> 'w MessageDispatcher" where
  "dispatch_body d fs =
     (if fs = [] \<or> hd fs = [] then
        (Inr None, d\<lparr>messages_failed := messages_failed d + 1\<rparr>)
      else
        (case py_int (hd fs) of
           Inl e \<Rightarrow>
             (if is_ValueError e \<or> is_TypeError e
              then (Inr None, d\<lparr>messages_failed := messages_failed d + 1\<rparr>)
              else (Inl e, d))
         | Inr msg_id \<Rightarrow>
             dispatch_route
               (d\<lparr>messages_processed := messages_processed d + 1,
                  message_counts :=
                    AList.update msg_id (count_of (message_counts d) msg_id + 1)
                      (message_counts d)\<rparr>)
               msg_id fs))"

text \<open>
  \<open>dispatch\<close>: the \<open>finally\<close> clause adds the elapsed time on every path.  The
  reading of the clock is an input, \<open>elapsed\<close>.
\<close>

definition dispatch ::
  "'w MessageDispatcher \<Rightarrow> real \<Rightarrow> string list \<Rightarrow>
     (exn + message option) \<times> 'w MessageDispatcher" where
  "dispatch d elapsed fs =
     (let (r, d') = dispatch_body d fs
      in (r, d'\<lparr>processing_time := processing_time d' + elapsed\<rparr>))"

definition reset_statistics :: "'w MessageDispatcher \<Rightarrow> 'w MessageDispatcher" where
  "reset_statistics d =
     d\<lparr>messages_processed := 0, messages_failed := 0, validation_errors := 0,
       unknown_messages := 0, processing_time := 0, message_counts := []\<rparr>"

text \<open>A sequence of dispatches on one dispatcher, each with its clock reading.\<close>

fun dispatch_all :: "'w MessageDispatcher \<Rightarrow> (real \<times> string list) list \<Rightarrow> 'w MessageDispatcher" where
  "dispatch_all d [] = d"
| "dispatch_all d (x # xs) = dispatch_all (snd (dispatch d (fst x) (snd x))) xs"

section \<open>Market data decoders (decoders/models/market\_data.py)\<close>

text \<open>
  \<open>PriceSizeTickMessage.from_fields\<close>.  The constructor call at the end validates
  an \<open>int\<close>, an \<open>int\<close>, a \<open>float\<close> and a \<open>float\<close> against fields of these very
  types, which cannot fail.
\<close>

definition PriceSizeTickMessage_from_fields :: "string list \<Rightarrow> int \<Rightarrow> exn + message option" where
  "PriceSizeTickMessage_from_fields fs sv =
     (let it = skip (FieldIterator_init fs 0) 2
      in bind_r (next_int it 0) (\<lambda>(req_id, it).
         bind_r (next_int it 0) (\<lambda>(tick_type, it).
         bind_r (next_field it (Some []) False) (\<lambda>(price, it).
         bind_r (next_field it (Some []) False) (\<lambda>(size, it).
           if \<not> truthy price then Inr None
           else
             bind_r (py_float_of price) (\<lambda>p.
             bind_r (if truthy size then py_float_of size else Inr (Finite 0)) (\<lambda>s.
               Inr (Some \<lparr>class_of = ''PriceSizeTickMessage'',
                          attrs = [(''req_id'', VInt req_id),
                                           (''tick_type'', VInt tick_type),
                                           (''price'', VFloat p),
                                           (''size'', VFloat s)]\<rparr>))))))))"

definition PriceSizeTickMessage :: msg_class where
  "PriceSizeTickMessage =
     \<lparr>cls_name = ''PriceSizeTickMessage'', MESSAGE_ID = Some 1,
      from_fields = PriceSizeTickMessage_from_fields\<rparr>"

text \<open>\<open>TickSizeMessage.from_fields\<close>.\<close>

definition TickSizeMessage_from_fields :: "string list \<Rightarrow> int \<Rightarrow> exn + message option" where
  "TickSizeMessage_from_fields fs sv =
     (let it = skip (FieldIterator_init fs 0) 1
      in bind_r (next_int it 0) (\<lambda>(req_id, it).
         bind_r (next_int it 0) (\<lambda>(tick_type, it).
         bind_r (next_float it (Finite 0)) (\<lambda>(size, it).
           Inr (Some \<lparr>class_of = ''TickSizeMessage'',
                      attrs = [(''req_id'', VInt req_id),
                                       (''tick_type'', VInt tick_type),
                                       (''size'', VFloat size)]\<rparr>)))))"

definition TickSizeMessage :: msg_class where
  "TickSizeMessage =
     \<lparr>cls_name = ''TickSizeMessage'', MESSAGE_ID = Some 2,
      from_fields = TickSizeMessage_from_fields\<rparr>"

section \<open>Order decoders (decoders/models/orders.py)\<close>

text \<open>A plain Python object is its attribute dictionary.\<close>

type_synonym py_object = "string \<rightharpoonup> pyval"










section \<open>Contract details (decoders/parsers/field\_parser.py, contract/details.py)\<close>

text \<open>
  \<open>FieldParser.parse_contract_details\<close>, the lines under the comment
  \<open>Version-specific fields\<close>:
  \<^verbatim>\<open>
        if server_version >= 164:
            details.minSize = fields.next_float()
            details.sizeIncrement = fields.next_float()
            details.suggestedSizeIncrement = fields.next_float()
  \<close>
  \<open>details\<close> is an instance of the pydantic model \<open>ContractDetails\<close>, and the
  assignment to one of its attributes is pydantic's, which may raise; it is the
  parameter \<open>assign\<close>.  The cursor is returned as the block left it, also when
  the block raised.
\<close>

definition parse_contract_details_version_fields ::
  "(py_object \<Rightarrow> string \<Rightarrow> pyval \<Rightarrow> exn + py_object) \<Rightarrow> py_object \<Rightarrow> FieldIterator \<Rightarrow> int \<Rightarrow>
     (exn + py_object) \<times> FieldIterator" where
  "parse_contract_details_version_fields assign details it sv =
     (if 164 \<le> sv then
        (case next_float it (Finite 0) of
           Inl e \<Rightarrow> (Inl e, it)
         | Inr (minSize, it1) \<Rightarrow>
             (case assign details ''minSize'' (VFloat minSize) of
                Inl e \<Rightarrow> (Inl e, it1)
              | Inr details1 \<Rightarrow>
                  (case next_float it1 (Finite 0) of
                     Inl e \<Rightarrow> (Inl e, it1)
                   | Inr (sizeIncrement, it2) \<Rightarrow>
                       (case assign details1 ''sizeIncrement'' (VFloat sizeIncrement) of
                          Inl e \<Rightarrow> (Inl e, it2)
                        | Inr details2 \<Rightarrow>
                            (case next_float it2 (Finite 0) of
                               Inl e \<Rightarrow> (Inl e, it2)
                             | Inr (suggestedSizeIncrement, it3) \<Rightarrow>
                                 (case assign details2 ''suggestedSizeIncrement''
                                         (VFloat suggestedSizeIncrement) of
                                    Inl e \<Rightarrow> (Inl e, it3)
                                  | Inr details3 \<Rightarrow> (Inr details3, it3)))))))
      else (Inr details, it))"

text \<open>
  The assignment \<open>obj.name = v\<close> to an instance of a pydantic model with
  \<open>validate_assignment=True\<close> and without \<open>extra='allow'\<close>, as
  \<open>ContractDetails\<close> and \<open>Contract\<close> are configured: \<open>v\<close> is validated against
  the declared field \<open>name\<close>, and \<open>ValidationError\<close> is raised when the model
  declares no field of that name.  The validation of the declared fields is a
  parameter.
\<close>

definition model_setattr ::
  "string list \<Rightarrow> (string \<Rightarrow> pyval \<Rightarrow> exn + pyval) \<Rightarrow> py_object \<Rightarrow> string \<Rightarrow> pyval \<Rightarrow>
     exn + py_object" where
  "model_setattr field_names validate_field obj name v =
     (if name \<in> set field_names then
        (case validate_field name v of Inl e \<Rightarrow> Inl e | Inr v' \<Rightarrow> Inr (obj(name \<mapsto> v')))
      else Inl ValidationError)"

text \<open>The fields that class \<open>ContractDetails\<close> declares, in the order of the source.\<close>

definition ContractDetails_fields :: "string list" where
  "ContractDetails_fields =
     [''contract'', ''market_name'', ''min_tick'', ''order_types'', ''valid_exchanges'',
      ''price_magnifier'', ''underlying_contract_id'', ''long_name'', ''contract_month'',
      ''industry'', ''category'', ''subcategory'', ''time_zone_id'', ''trading_hours'',
      ''liquid_hours'', ''evaluation_rule'', ''evaluation_multiplier'',
      ''market_data_size_multiplier'', ''aggregation_group'', ''under_symbol'',
      ''underlying_security_type'', ''market_rule_ids'', ''security_id_list'',
      ''real_expiration_date'', ''last_trade_time'', ''stock_type'', ''min_size'',
      ''size_increment'', ''suggested_size_increment'', ''cusip'', ''ratings'',
      ''description_append'', ''bond_type'', ''coupon_type'', ''callable'', ''putable'',
      ''coupon'', ''convertible'', ''maturity'', ''issue_date'', ''next_option_date'',
      ''next_option_type'', ''next_option_partial'', ''notes'']"

section \<open>Contracts (contract/enums.py, contract/base.py, contract/specialized.py)\<close>

text \<open>
  The contract classes are pydantic models, and what \<open>ContractAdapter.parse\<close>
  does is what pydantic's validation does with their declarations.  This section
  models that validation in its default (lax) mode on the values of \<open>pyval\<close>.
  A dictionary is the object \<open>VObj ''dict''\<close>; a member of an enumeration that
  derives from \<open>str\<close> or \<open>int\<close> is represented by its value.  Every validation
  failure is pydantic's \<open>ValidationError\<close>.

  How pydantic reads an \<open>int\<close> and a \<open>Decimal\<close> from a string is a parameter
  of the model (\<open>str_as_int\<close>, \<open>str_as_decimal\<close>).
\<close>

record coercions =
  str_as_int :: "string \<Rightarrow> int option"
  str_as_decimal :: "string \<Rightarrow> rat option"

type_synonym validator = "pyval \<Rightarrow> exn + pyval"

definition is_integral :: "rat \<Rightarrow> bool" where
  "is_integral q = (q = of_int \<lfloor>q\<rfloor>)"

text \<open>A field of type \<open>int\<close>.\<close>

definition v_int :: "coercions \<Rightarrow> validator" where
  "v_int c v =
     (case v of
        VInt n \<Rightarrow> Inr (VInt n)
      | VBool b \<Rightarrow> Inr (VInt (if b then 1 else 0))
      | VStr s \<Rightarrow> (case str_as_int c s of Some n \<Rightarrow> Inr (VInt n) | None \<Rightarrow> Inl ValidationError)
      | VFloat (Finite q) \<Rightarrow> if is_integral q then Inr (VInt \<lfloor>q\<rfloor>) else Inl ValidationError
      | VDecimal q \<Rightarrow> if is_integral q then Inr (VInt \<lfloor>q\<rfloor>) else Inl ValidationError
      | _ \<Rightarrow> Inl ValidationError)"

text \<open>A field of type \<open>str\<close>: numbers are not converted to strings.\<close>

definition v_str :: validator where
  "v_str v = (case v of VStr s \<Rightarrow> Inr (VStr s) | _ \<Rightarrow> Inl ValidationError)"

text \<open>A field of type \<open>bool\<close>.\<close>

definition v_bool :: validator where
  "v_bool v =
     (case v of
        VBool b \<Rightarrow> Inr (VBool b)
      | VInt n \<Rightarrow> if n = 0 then Inr (VBool False) else if n = 1 then Inr (VBool True)
                  else Inl ValidationError
      | VStr s \<Rightarrow>
          if py_lower s \<in> set [''0'', ''off'', ''f'', ''false'', ''n'', ''no''] then Inr (VBool False)
          else if py_lower s \<in> set [''1'', ''on'', ''t'', ''true'', ''y'', ''yes''] then Inr (VBool True)
          else Inl ValidationError
      | VFloat (Finite q) \<Rightarrow> if q = 0 then Inr (VBool False) else if q = 1 then Inr (VBool True)
                             else Inl ValidationError
      | VDecimal q \<Rightarrow> if q = 0 then Inr (VBool False) else if q = 1 then Inr (VBool True)
                        else Inl ValidationError
      | _ \<Rightarrow> Inl ValidationError)"

text \<open>
  A field of type \<open>Decimal\<close>, with the constraint \<open>gt=0\<close> when the flag is set.
  A \<open>bool\<close> is rejected, and so is a value that is not finite.
\<close>

definition v_decimal :: "coercions \<Rightarrow> bool \<Rightarrow> validator" where
  "v_decimal c gt0 v =
     (case (case v of
              VInt n \<Rightarrow> Some (of_int n)
            | VStr s \<Rightarrow> str_as_decimal c s
            | VFloat (Finite q) \<Rightarrow> Some q
            | VDecimal q \<Rightarrow> Some q
            | _ \<Rightarrow> None) of
        None \<Rightarrow> Inl ValidationError
      | Some q \<Rightarrow> if gt0 \<and> \<not> 0 < q then Inl ValidationError else Inr (VDecimal q))"

text \<open>A field whose type is an enumeration deriving from \<open>str\<close>, given by its values.\<close>

definition v_enum_str :: "string list \<Rightarrow> validator" where
  "v_enum_str members v =
     (case v of
        VStr s \<Rightarrow> if s \<in> set members then Inr (VStr s) else Inl ValidationError
      | _ \<Rightarrow> Inl ValidationError)"

text \<open>An enumeration deriving from \<open>int\<close>: the value is read as an \<open>int\<close> first.\<close>

definition v_enum_int :: "coercions \<Rightarrow> int list \<Rightarrow> validator" where
  "v_enum_int c members v =
     (case v_int c v of
        Inr (VInt n) \<Rightarrow> if n \<in> set members then Inr (VInt n) else Inl ValidationError
      | _ \<Rightarrow> Inl ValidationError)"

text \<open>\<open>Literal[E.M]\<close> for a member of a \<open>str\<close> enumeration, given by its value.\<close>

definition v_literal :: "string \<Rightarrow> validator" where
  "v_literal member v =
     (case v of
        VStr s \<Rightarrow> if s = member then Inr (VStr s) else Inl ValidationError
      | _ \<Rightarrow> Inl ValidationError)"

text \<open>\<open>T | None\<close>, and a union: the first member that accepts the value.\<close>

definition v_optional :: "validator \<Rightarrow> validator" where
  "v_optional inner v = (case v of VNone \<Rightarrow> Inr VNone | _ \<Rightarrow> inner v)"

fun v_union :: "validator list \<Rightarrow> validator" where
  "v_union [] v = Inl ValidationError"
| "v_union (a # as) v = (case a v of Inr r \<Rightarrow> Inr r | Inl e \<Rightarrow> v_union as v)"

text \<open>\<open>list[T]\<close>.\<close>

fun validate_items :: "validator \<Rightarrow> pyval list \<Rightarrow> exn + pyval list" where
  "validate_items inner [] = Inr []"
| "validate_items inner (x # xs) =
     (case inner x of
        Inl e \<Rightarrow> Inl e
      | Inr y \<Rightarrow> (case validate_items inner xs of Inl e \<Rightarrow> Inl e | Inr ys \<Rightarrow> Inr (y # ys)))"

definition v_list :: "validator \<Rightarrow> validator" where
  "v_list inner v =
     (case v of
        VList xs \<Rightarrow> (case validate_items inner xs of Inl e \<Rightarrow> Inl e | Inr ys \<Rightarrow> Inr (VList ys))
      | _ \<Rightarrow> Inl ValidationError)"

text \<open>
  The fields of a model: name, validator, and the default, if the field has one.
  A key that is present is validated; a key that is absent takes the default, which
  is not validated; a required field that is absent is an error.  Keys that name no
  field are ignored.
\<close>

type_synonym field_spec = "string \<times> validator \<times> pyval option"

fun validate_fields :: "field_spec list \<Rightarrow> (string \<times> pyval) list \<Rightarrow> exn + (string \<times> pyval) list" where
  "validate_fields [] data = Inr []"
| "validate_fields ((name, validate, dflt) # fs) data =
     (case (case map_of data name of
              Some v \<Rightarrow> validate v
            | None \<Rightarrow> (case dflt of Some d \<Rightarrow> Inr d | None \<Rightarrow> Inl ValidationError)) of
        Inl e \<Rightarrow> Inl e
      | Inr v' \<Rightarrow>
          (case validate_fields fs data of
             Inl e \<Rightarrow> Inl e
           | Inr rest \<Rightarrow> Inr ((name, v') # rest)))"

text \<open>
  A field whose type is a model: a dictionary is validated against the fields, an
  instance of the class is taken as it is.
\<close>

definition v_model :: "string \<Rightarrow> field_spec list \<Rightarrow> validator" where
  "v_model cls fs v =
     (case v of
        VObj c kvs \<Rightarrow>
          if c = ''dict'' then
            (case validate_fields fs kvs of Inl e \<Rightarrow> Inl e | Inr r \<Rightarrow> Inr (VObj cls r))
          else if c = cls then Inr v
          else Inl ValidationError
      | _ \<Rightarrow> Inl ValidationError)"

text \<open>The values of the enumerations of contract/enums.py.\<close>

definition SecurityType_values :: "string list" where
  "SecurityType_values =
     [''STK'', ''OPT'', ''FUT'', ''CONTFUT'', ''CASH'', ''IND'', ''CFD'', ''BOND'',
      ''CMDTY'', ''FOP'', ''FUND'', ''WAR'', ''IOPT'', ''BAG'', ''CRYPTO'', ''NEWS'',
      ''EVENT'']"

definition OptionType_values :: "string list" where
  "OptionType_values =
     [''C'', ''P'']"

definition OrderAction_values :: "string list" where
  "OrderAction_values =
     [''BUY'', ''SELL'']"

definition Exchange_values :: "string list" where
  "Exchange_values =
     [''SMART'', ''NYSE'', ''NASDAQ'', ''AMEX'', ''ARCA'', ''ISLAND'', ''BATS'', ''IEX'',
      ''EDGEA'', ''BYX'', ''CBOE'', ''ISE'', ''PHLX'', ''BOX'', ''GLOBEX'', ''ECBOT'',
      ''NYMEX'', ''COMEX'', ''CBOT'', ''ICE'', ''CFE'', ''NYBOT'', ''IBIS'', ''LSE'',
      ''SBF'', ''AEB'', ''BVME'', ''IBIS2'', ''FWB'', ''SWB'', ''BATEEN'', ''SEHK'',
      ''HKFE'', ''TSE'', ''OSE.JPN'', ''SGX'', ''NSE'', ''ASX'', ''SNFE'', ''TSX'',
      ''VENTURE'', ''MX'', ''IDEALPRO'', ''FXCONV'', ''PAXOS'']"

definition Currency_values :: "string list" where
  "Currency_values =
     [''USD'', ''EUR'', ''GBP'', ''JPY'', ''CHF'', ''CAD'', ''AUD'', ''NZD'', ''CNH'',
      ''CNY'', ''HKD'', ''SGD'', ''KRW'', ''INR'', ''THB'', ''MYR'', ''IDR'', ''PHP'',
      ''TWD'', ''SEK'', ''NOK'', ''DKK'', ''PLN'', ''CZK'', ''HUF'', ''RON'', ''RUB'',
      ''TRY'', ''ILS'', ''ZAR'', ''AED'', ''SAR'', ''MXN'', ''BRL'', ''ARS'', ''CLP'',
      ''COP'', ''PEN'']"

definition SecurityIdType_values :: "string list" where
  "SecurityIdType_values =
     [''ISIN'', ''CUSIP'', ''SEDOL'', ''RIC'', ''FIGI'']"

definition OpenClose_values :: "int list" where
  "OpenClose_values = [0, 1, 2, 3]"

definition ShortSaleSlot_values :: "int list" where
  "ShortSaleSlot_values = [0, 1, 2]"

definition ExemptCode_values :: "int list" where
  "ExemptCode_values = [- 1, 0]"

text \<open>
  \<open>ComboLeg\<close>, \<open>DeltaNeutralContract\<close> and \<open>Contract\<close> (contract/base.py): each
  field with its type and its default, in the order of the class body.  The
  validator \<open>validate_option_type\<close> of \<open>Contract\<close> runs before the validation of
  \<open>option_type\<close> and turns the empty string into \<open>None\<close>.
\<close>

definition ComboLeg_fields :: "coercions \<Rightarrow> field_spec list" where
  "ComboLeg_fields c =
     [(''contract_id'', v_int c, Some (VInt 0)),
      (''ratio'', v_optional (v_int c), Some VNone),
      (''action'', v_enum_str OrderAction_values, Some (VStr ''BUY'')),
      (''exchange'', v_optional (v_enum_str Exchange_values), Some VNone),
      (''open_close'', v_enum_int c OpenClose_values, Some (VInt 0)),
      (''short_sale_slot'', v_enum_int c ShortSaleSlot_values, Some (VInt 0)),
      (''designated_location'', v_optional v_str, Some VNone),
      (''exempt_code'', v_enum_int c ExemptCode_values, Some (VInt (- 1)))]"

definition DeltaNeutralContract_fields :: "coercions \<Rightarrow> field_spec list" where
  "DeltaNeutralContract_fields c =
     [(''contract_id'', v_int c, Some (VInt 0)),
      (''delta'', v_optional (v_decimal c False), Some VNone),
      (''price'', v_optional (v_decimal c False), Some VNone)]"

definition empty_to_none :: "validator \<Rightarrow> validator" where
  "empty_to_none inner v = inner (if v = VStr [] then VNone else v)"

definition Contract_fields :: "coercions \<Rightarrow> field_spec list" where
  "Contract_fields c =
     [(''contract_id'', v_int c, Some (VInt 0)),
      (''symbol'', v_optional v_str, Some VNone),
      (''security_type'', v_optional (v_enum_str SecurityType_values), Some VNone),
      (''last_trade_date_or_contract_month'', v_optional v_str, Some VNone),
      (''strike'', v_decimal c False, Some (VDecimal 0)),
      (''option_type'', empty_to_none (v_optional (v_enum_str OptionType_values)), Some VNone),
      (''multiplier'', v_optional v_str, Some VNone),
      (''exchange'', v_optional (v_union [v_enum_str Exchange_values, v_str]), Some VNone),
      (''primary_exchange'', v_optional (v_union [v_enum_str Exchange_values, v_str]), Some VNone),
      (''currency'', v_optional (v_union [v_enum_str Currency_values, v_str]), Some VNone),
      (''local_symbol'', v_optional v_str, Some VNone),
      (''trading_class'', v_optional v_str, Some VNone),
      (''include_expired'', v_bool, Some (VBool False)),
      (''security_id_type'', v_optional (v_enum_str SecurityIdType_values), Some VNone),
      (''security_id'', v_optional v_str, Some VNone),
      (''description'', v_optional v_str, Some VNone),
      (''issuer_id'', v_optional v_str, Some VNone),
      (''combo_legs_description'', v_optional v_str, Some VNone),
      (''combo_legs'', v_list (v_model ''ComboLeg'' (ComboLeg_fields c)), Some (VList [])),
      (''delta_neutral_contract'',
         v_optional (v_model ''DeltaNeutralContract'' (DeltaNeutralContract_fields c)),
         Some VNone)]"

text \<open>\<open>cls.model_validate(data)\<close> for a dictionary \<open>data\<close>.\<close>

definition model_validate :: "string \<Rightarrow> field_spec list \<Rightarrow> (string \<times> pyval) list \<Rightarrow> exn + pyval" where
  "model_validate cls fs data =
     (case validate_fields fs data of Inl e \<Rightarrow> Inl e | Inr r \<Rightarrow> Inr (VObj cls r))"

text \<open>
  A subclass that declares a field of its base class again replaces the declaration
  and keeps the place of the field.
\<close>

definition override_fields :: "field_spec list \<Rightarrow> field_spec list \<Rightarrow> field_spec list" where
  "override_fields base ovs =
     map (\<lambda>f. case find (\<lambda>g. fst g = fst f) ovs of Some g \<Rightarrow> g | None \<Rightarrow> f) base"

text \<open>
  The specialised contracts (contract/specialized.py).  \<open>Option\<close> validates
  \<open>option_type\<close> once more afterwards (\<open>validate_option_type_required\<close>).
\<close>

definition option_type_required :: "validator \<Rightarrow> validator" where
  "option_type_required inner v =
     (case inner v of Inl e \<Rightarrow> Inl e | Inr r \<Rightarrow> if r = VNone then Inl ValidationError else Inr r)"

definition Stock_fields :: "coercions \<Rightarrow> field_spec list" where
  "Stock_fields c = override_fields (Contract_fields c)
     [(''security_type'', v_literal ''STK'', Some (VStr ''STK'')),
      (''exchange'', v_enum_str Exchange_values, Some (VStr ''SMART'')),
      (''currency'', v_enum_str Currency_values, Some (VStr ''USD''))]"

definition Option_fields :: "coercions \<Rightarrow> field_spec list" where
  "Option_fields c = override_fields (Contract_fields c)
     [(''security_type'', v_literal ''OPT'', Some (VStr ''OPT'')),
      (''strike'', v_decimal c True, None),
      (''option_type'',
         option_type_required (empty_to_none (v_enum_str OptionType_values)), None),
      (''multiplier'', v_int c, Some (VInt 100)),
      (''exchange'', v_enum_str Exchange_values, Some (VStr ''SMART'')),
      (''currency'', v_enum_str Currency_values, Some (VStr ''USD''))]"

definition Future_fields :: "coercions \<Rightarrow> field_spec list" where
  "Future_fields c = override_fields (Contract_fields c)
     [(''security_type'', v_literal ''FUT'', Some (VStr ''FUT'')),
      (''currency'', v_enum_str Currency_values, Some (VStr ''USD'')),
      (''exchange'', v_enum_str Exchange_values, None)]"

definition ContFuture_fields :: "coercions \<Rightarrow> field_spec list" where
  "ContFuture_fields c = override_fields (Contract_fields c)
     [(''security_type'', v_literal ''CONTFUT'', Some (VStr ''CONTFUT'')),
      (''currency'', v_enum_str Currency_values, Some (VStr ''USD''))]"

definition Forex_fields :: "coercions \<Rightarrow> field_spec list" where
  "Forex_fields c = override_fields (Contract_fields c)
     [(''security_type'', v_literal ''CASH'', Some (VStr ''CASH'')),
      (''exchange'', v_enum_str Exchange_values, Some (VStr ''IDEALPRO''))]"

definition Index_fields :: "coercions \<Rightarrow> field_spec list" where
  "Index_fields c = override_fields (Contract_fields c)
     [(''security_type'', v_literal ''IND'', Some (VStr ''IND'')),
      (''currency'', v_enum_str Currency_values, Some (VStr ''USD''))]"

definition FuturesOption_fields :: "coercions \<Rightarrow> field_spec list" where
  "FuturesOption_fields c = override_fields (Contract_fields c)
     [(''security_type'', v_literal ''FOP'', Some (VStr ''FOP'')),
      (''strike'', v_decimal c True, None),
      (''option_type'', empty_to_none (v_enum_str OptionType_values), None),
      (''currency'', v_enum_str Currency_values, Some (VStr ''USD''))]"

definition Crypto_fields :: "coercions \<Rightarrow> field_spec list" where
  "Crypto_fields c = override_fields (Contract_fields c)
     [(''security_type'', v_literal ''CRYPTO'', Some (VStr ''CRYPTO'')),
      (''exchange'', v_enum_str Exchange_values, Some (VStr ''PAXOS'')),
      (''currency'', v_enum_str Currency_values, Some (VStr ''USD''))]"

text \<open>
  \<open>CFD\<close>, \<open>Commodity\<close>, \<open>Bond\<close>, \<open>MutualFund\<close>, \<open>Warrant\<close> and \<open>Bag\<close>
  declare the literal \<open>security_type\<close> only.
\<close>

definition literal_only_fields :: "coercions \<Rightarrow> string \<Rightarrow> field_spec list" where
  "literal_only_fields c tag = override_fields (Contract_fields c)
     [(''security_type'', v_literal tag, Some (VStr tag))]"

text \<open>Truth value, \<open>len\<close> and the slices \<open>[:3]\<close> and \<open>[3:]\<close> of a Python value.\<close>

definition py_truthy :: "pyval \<Rightarrow> bool" where
  "py_truthy v =
     (case v of
        VNone \<Rightarrow> False
      | VBool b \<Rightarrow> b
      | VInt n \<Rightarrow> n \<noteq> 0
      | VFloat x \<Rightarrow> x \<noteq> Finite 0
      | VDecimal q \<Rightarrow> q \<noteq> 0
      | VStr s \<Rightarrow> s \<noteq> []
      | VList xs \<Rightarrow> xs \<noteq> []
      | VObj c kvs \<Rightarrow> c \<noteq> ''dict'' \<or> kvs \<noteq> [])"

definition py_len :: "pyval \<Rightarrow> exn + nat" where
  "py_len v =
     (case v of
        VStr s \<Rightarrow> Inr (length s)
      | VList xs \<Rightarrow> Inr (length xs)
      | VObj c kvs \<Rightarrow> if c = ''dict'' then Inr (length kvs) else Inl TypeError
      | _ \<Rightarrow> Inl TypeError)"

definition py_first3 :: "pyval \<Rightarrow> exn + pyval" where
  "py_first3 v =
     (case v of
        VStr s \<Rightarrow> Inr (VStr (take 3 s))
      | VList xs \<Rightarrow> Inr (VList (take 3 xs))
      | _ \<Rightarrow> Inl TypeError)"

definition py_from3 :: "pyval \<Rightarrow> exn + pyval" where
  "py_from3 v =
     (case v of
        VStr s \<Rightarrow> Inr (VStr (drop 3 s))
      | VList xs \<Rightarrow> Inr (VList (drop 3 xs))
      | _ \<Rightarrow> Inl TypeError)"

text \<open>\<open>name not in values or values[name] is None\<close>.\<close>

definition unset_key :: "(string \<times> pyval) list \<Rightarrow> string \<Rightarrow> bool" where
  "unset_key kvs name = (map_of kvs name = None \<or> map_of kvs name = Some VNone)"

text \<open>
  \<open>Forex.handle_pair\<close>, the validator that runs on the dictionary before the
  fields of \<open>Forex\<close> are validated.  It writes into the dictionary it is given.
  \<open>len\<close> of a number raises \<open>TypeError\<close>, which is no validation failure and
  leaves the validation as it is.
\<close>

definition Forex_handle_pair :: "(string \<times> pyval) list \<Rightarrow> exn + (string \<times> pyval) list" where
  "Forex_handle_pair kvs =
     (let pair = (case map_of kvs ''pair'' of None \<Rightarrow> VNone | Some p \<Rightarrow> p)
      in if \<not> py_truthy pair then Inr kvs
         else
           bind_r (py_len pair) (\<lambda>n.
             if n \<noteq> 6 then Inr kvs
             else
               bind_r (if unset_key kvs ''symbol''
                       then bind_r (py_first3 pair) (\<lambda>s. Inr (AList.update ''symbol'' s kvs))
                       else Inr kvs) (\<lambda>kvs1.
               if unset_key kvs1 ''currency''
               then bind_r (py_from3 pair) (\<lambda>s. Inr (AList.update ''currency'' s kvs1))
               else Inr kvs1)))"

text \<open>
  \<open>Bag.validate_combo_legs\<close>, the validator that runs on the validated instance:
  an empty \<open>combo_legs\<close> is rejected.
\<close>

definition Bag_validate_combo_legs :: "pyval \<Rightarrow> exn + pyval" where
  "Bag_validate_combo_legs v =
     (case v of
        VObj cls kvs \<Rightarrow>
          (case map_of kvs ''combo_legs'' of
             Some legs \<Rightarrow> if py_truthy legs then Inr v else Inl ValidationError
           | None \<Rightarrow> Inl ValidationError)
      | _ \<Rightarrow> Inl ValidationError)"

section \<open>The contract resolver (contract/adapter.py, class ContractAdapter)\<close>

text \<open>
  \<open>SpecializedContractUnion\<close>: the member of the union that the value of the
  discriminator \<open>security_type\<close> selects, in the order of the union.
\<close>

definition specialized_class :: "coercions \<Rightarrow> string \<Rightarrow> (string \<times> field_spec list) option" where
  "specialized_class c tag =
     (if tag = ''STK'' then Some (''Stock'', Stock_fields c)
      else if tag = ''OPT'' then Some (''Option'', Option_fields c)
      else if tag = ''FUT'' then Some (''Future'', Future_fields c)
      else if tag = ''CONTFUT'' then Some (''ContFuture'', ContFuture_fields c)
      else if tag = ''CASH'' then Some (''Forex'', Forex_fields c)
      else if tag = ''IND'' then Some (''Index'', Index_fields c)
      else if tag = ''CFD'' then Some (''CFD'', literal_only_fields c ''CFD'')
      else if tag = ''BOND'' then Some (''Bond'', literal_only_fields c ''BOND'')
      else if tag = ''CMDTY'' then Some (''Commodity'', literal_only_fields c ''CMDTY'')
      else if tag = ''FOP'' then Some (''FuturesOption'', FuturesOption_fields c)
      else if tag = ''FUND'' then Some (''MutualFund'', literal_only_fields c ''FUND'')
      else if tag = ''WAR'' then Some (''Warrant'', literal_only_fields c ''WAR'')
      else if tag = ''BAG'' then Some (''Bag'', literal_only_fields c ''BAG'')
      else if tag = ''CRYPTO'' then Some (''Crypto'', Crypto_fields c)
      else None)"

text \<open>
  \<open>cls._type_adapter.validate_python(data)\<close>: the discriminator is looked up in
  the dictionary; a missing discriminator and a value that selects no member are
  validation failures.  The dictionary is returned as the validation left it.
\<close>

definition validate_specialized ::
  "coercions \<Rightarrow> (string \<times> pyval) list \<Rightarrow> (exn + pyval) \<times> (string \<times> pyval) list" where
  "validate_specialized c data =
     (case map_of data ''security_type'' of
        Some (VStr tag) \<Rightarrow>
          (case specialized_class c tag of
             None \<Rightarrow> (Inl ValidationError, data)
           | Some (cls, fs) \<Rightarrow>
               if cls = ''Forex'' then
                 (case Forex_handle_pair data of
                    Inl e \<Rightarrow> (Inl e, data)
                  | Inr data' \<Rightarrow> (model_validate cls fs data', data'))
               else if cls = ''Bag'' then
                 (bind_r (model_validate cls fs data) Bag_validate_combo_legs, data)
               else (model_validate cls fs data, data))
      | _ \<Rightarrow> (Inl ValidationError, data))"

text \<open>
  \<open>ContractAdapter.parse\<close>:
  \<^verbatim>\<open>
        try:
            return cls._type_adapter.validate_python(data)
        except ValidationError:
            return Contract.model_validate(data)
  \<close>
\<close>

definition ContractAdapter_parse :: "coercions \<Rightarrow> (string \<times> pyval) list \<Rightarrow> exn + pyval" where
  "ContractAdapter_parse c data =
     (case validate_specialized c data of
        (Inr contract, data') \<Rightarrow> Inr contract
      | (Inl e, data') \<Rightarrow>
          if e = ValidationError then model_validate ''Contract'' (Contract_fields c) data'
          else Inl e)"

section \<open>Handlers (decoders/handlers/market\_data.py)\<close>

text \<open>
  A method call \<open>wrapper.name(args)\<close>: a missing attribute raises
  \<open>AttributeError\<close>.
\<close>

definition call_method ::
  "('w \<Rightarrow> string \<Rightarrow> (pyval list \<Rightarrow> 'w \<Rightarrow> 'w \<times> exn option) option) \<Rightarrow>
     'w \<Rightarrow> string \<Rightarrow> pyval list \<Rightarrow> 'w \<times> exn option" where
  "call_method ga w name args =
     (case ga w name of None \<Rightarrow> (w, Some AttributeError) | Some method \<Rightarrow> method args w)"

definition msg_attr :: "message \<Rightarrow> string \<Rightarrow> pyval" where
  "msg_attr m name = (case map_of (attrs m) name of None \<Rightarrow> VNone | Some v \<Rightarrow> v)"

text \<open>
  \<open>handle_price_size_tick\<close> and \<open>handle_tick_size\<close>.  Both receive messages of
  their own class only, whose attributes exist.
\<close>

definition handle_price_size_tick ::
  "('w \<Rightarrow> string \<Rightarrow> (pyval list \<Rightarrow> 'w \<Rightarrow> 'w \<times> exn option) option) \<Rightarrow>
     'w \<Rightarrow> message \<Rightarrow> 'w \<times> exn option" where
  "handle_price_size_tick ga w msg =
     (if msg_attr msg ''price'' \<noteq> VNone then
        (if ga w ''priceSizeTick'' \<noteq> None then
           call_method ga w ''priceSizeTick''
             [msg_attr msg ''req_id'', msg_attr msg ''tick_type'', msg_attr msg ''price'',
              msg_attr msg ''size'']
         else
           call_method ga w ''tickPrice''
             [msg_attr msg ''req_id'', msg_attr msg ''tick_type'', msg_attr msg ''price'',
              VObj ''dict'' [(''size'', msg_attr msg ''size'')]])
      else (w, None))"

definition handle_tick_size ::
  "('w \<Rightarrow> string \<Rightarrow> (pyval list \<Rightarrow> 'w \<Rightarrow> 'w \<times> exn option) option) \<Rightarrow>
     'w \<Rightarrow> message \<Rightarrow> 'w \<times> exn option" where
  "handle_tick_size ga w msg =
     call_method ga w ''tickSize''
       [msg_attr msg ''req_id'', msg_attr msg ''tick_type'', msg_attr msg ''size'']"

section \<open>Concrete wrappers and registries for the instances below\<close>

text \<open>
  A recording wrapper in the manner of the tests' \<open>MagicMock\<close>: its state is the list
  of calls received, every attribute exists, and a call is appended to the list.
  \<open>failing_getattr\<close> is the wrapper whose every method raises after recording.
\<close>

type_synonym call_log = "(string \<times> pyval list) list"

definition recording_getattr ::
  "call_log \<Rightarrow> string \<Rightarrow> (pyval list \<Rightarrow> call_log \<Rightarrow> call_log \<times> exn option) option" where
  "recording_getattr w name = Some (\<lambda>args w'. (w' @ [(name, args)], None))"

definition failing_getattr ::
  "call_log \<Rightarrow> string \<Rightarrow> (pyval list \<Rightarrow> call_log \<Rightarrow> call_log \<times> exn option) option" where
  "failing_getattr w name = Some (\<lambda>args w'. (w' @ [(name, args)], Some (Raised ''boom'')))"

text \<open>
  The part of the global registry that the market data modules build for the tags 1
  and 2, by the decorators in the order of the source.
\<close>

definition tick_registry ::
  "(call_log \<Rightarrow> string \<Rightarrow> (pyval list \<Rightarrow> call_log \<Rightarrow> call_log \<times> exn option) option) \<Rightarrow>
     call_log MessageRegistry" where
  "tick_registry ga =
     (let r1 = snd (register_message MessageRegistry_init 1 PriceSizeTickMessage);
          r2 = snd (register_message r1 2 TickSizeMessage);
          r3 = snd (register_handler r2 PriceSizeTickMessage (handle_price_size_tick ga));
          r4 = snd (register_handler r3 TickSizeMessage (handle_tick_size ga))
      in r4)"



text \<open>
  A new dispatcher on the wrapper, the registry and the server version of a given
  one: what the constructor builds.
\<close>

definition fresh_like :: "'w MessageDispatcher \<Rightarrow> 'w MessageDispatcher" where
  "fresh_like d =
     MessageDispatcher_init (wrapper d) (getattr_wrapper d) (registry d) (server_version d)"

text \<open>New dispatchers on the recording and on the failing wrapper.\<close>

definition recording_dispatcher :: "call_log MessageDispatcher" where
  "recording_dispatcher = MessageDispatcher_init [] recording_getattr (tick_registry recording_getattr) 0"

definition failing_dispatcher :: "call_log MessageDispatcher" where
  "failing_dispatcher = MessageDispatcher_init [] failing_getattr (tick_registry failing_getattr) 0"

section \<open>Properties of the field cursor\<close>



lemma next_field_exhausted:
  "\<not> index it < length_it it \<Longrightarrow> next_field it dflt e = Inr (dflt, it)"
  by (simp add: next_field_def)

lemma py_int_raises_ValueError: "py_int tok = Inl e \<Longrightarrow> is_ValueError e"
  by (auto simp: py_int_def is_ValueError_def split: list.splits if_splits option.splits)

lemma py_float_raises_ValueError: "py_float tok = Inl e \<Longrightarrow> is_ValueError e"
  by (auto simp: py_float_def is_ValueError_def split: list.splits if_splits option.splits)




lemma next_field_inv:
  "cursor_inv it \<Longrightarrow> cursor_inv (cursor_after it (next_field it dflt e))"
  by (auto simp: cursor_inv_def cursor_after_def next_field_def Let_def split: sum.splits)

lemma next_field_cases:
  "(\<exists>e. next_field it dflt b = Inl e) \<or>
   (\<exists>v. next_field it dflt b = Inr (v, it)) \<or>
   (index it < length_it it \<and> (\<exists>v. next_field it dflt b = Inr (v, it\<lparr>index := index it + 1\<rparr>)))"
  by (auto simp: next_field_def Let_def split: sum.splits)

lemma next_int_inv:
  "cursor_inv it \<Longrightarrow> cursor_inv (cursor_after it (next_int it d))"
  using next_field_cases [of it "Some []" False]
  by (auto simp: cursor_inv_def cursor_after_def next_int_def split: sum.splits if_splits)

lemma next_float_inv:
  "cursor_inv it \<Longrightarrow> cursor_inv (cursor_after it (next_float it d))"
  using next_field_cases [of it "Some []" False]
  by (auto simp: cursor_inv_def cursor_after_def next_float_def split: sum.splits if_splits)

lemma next_bool_inv:
  "cursor_inv it \<Longrightarrow> cursor_inv (cursor_after it (next_bool it d))"
  using next_field_cases [of it "Some []" False]
  by (auto simp: cursor_inv_def cursor_after_def next_bool_def split: sum.splits if_splits option.splits)

lemma next_datetime_inv:
  "cursor_inv it \<Longrightarrow> cursor_inv (cursor_after it (next_datetime p it d))"
  using next_field_cases [of it "Some []" False]
  by (auto simp: cursor_inv_def cursor_after_def next_datetime_def split: sum.splits if_splits option.splits)

lemma reads_at_end:
  assumes "index it = length_it it"
  shows "next_field it dflt e = Inr (dflt, it)"
    and "next_int it di = Inr (di, it)"
    and "next_float it df = Inr (df, it)"
    and "next_bool it db = Inr (db, it)"
    and "next_datetime p it dd = Inr (dd, it)"
    and "0 \<le> offset \<Longrightarrow> peek it offset = Inr None"
  using assms
  by (simp_all add: next_field_exhausted next_int_def next_float_def next_bool_def
        next_datetime_def peek_def)

text \<open>
  Claim C4, as amended.  A cursor constructed with \<open>start_index \<le> length\<close> satisfies
  the invariant \<open>position \<le> length\<close>, and every operation preserves it.  When the
  position has reached the length, \<open>next\<close>, \<open>next_int\<close>, \<open>next_float\<close>,
  \<open>next_bool\<close> and \<open>next_datetime\<close> return the caller's default without moving,
  \<open>peek\<close> with a non-negative offset returns \<open>None\<close>, \<open>has_more\<close> is false,
  \<open>remaining\<close> is zero and \<open>consume_rest\<close> returns the empty list.
\<close>

theorem cursor_invariant:
  assumes "cursor_inv it"
  shows "cursor_inv (cursor_after it (next_field it dflt e)) \<and>
         cursor_inv (cursor_after it (next_int it di)) \<and>
         cursor_inv (cursor_after it (next_float it df)) \<and>
         cursor_inv (cursor_after it (next_bool it db)) \<and>
         cursor_inv (cursor_after it (next_datetime p it dd)) \<and>
         cursor_inv (skip it count) \<and>
         cursor_inv (snd (consume_rest it)) \<and>
         (index it = length_it it \<longrightarrow>
            next_field it dflt e = Inr (dflt, it) \<and>
            next_int it di = Inr (di, it) \<and>
            next_float it df = Inr (df, it) \<and>
            next_bool it db = Inr (db, it) \<and>
            next_datetime p it dd = Inr (dd, it) \<and>
            (0 \<le> offset \<longrightarrow> peek it offset = Inr None) \<and>
            \<not> has_more it \<and> remaining it = 0 \<and> fst (consume_rest it) = []) \<and>
         (start \<le> int (length fs) \<longrightarrow> cursor_inv (FieldIterator_init fs start))"
proof -
  have a: "cursor_inv (skip it count)" "cursor_inv (snd (consume_rest it))"
    using assms by (simp_all add: cursor_inv_def skip_def consume_rest_def)
  have b: "index it = length_it it \<Longrightarrow>
             \<not> has_more it \<and> remaining it = 0 \<and> fst (consume_rest it) = []"
    using assms
    by (simp add: has_more_def remaining_def consume_rest_def py_slice_from_def cursor_inv_def)
  have c: "start \<le> int (length fs) \<Longrightarrow> cursor_inv (FieldIterator_init fs start)"
    by (simp add: cursor_inv_def FieldIterator_init_def)
  show ?thesis
    using assms a b c
      next_field_inv [of it dflt e] next_int_inv [of it di] next_float_inv [of it df]
      next_bool_inv [of it db] next_datetime_inv [of it p dd]
      reads_at_end [of it]
    by blast
qed

text \<open>
  Witness for C4: the cursor over two tokens constructed at position 2 satisfies the
  invariant, has reached the length, and reads return the defaults.
\<close>

theorem cursor_invariant_witness:
  "cursor_inv (FieldIterator_init [''a'', ''b''] 2) \<and>
   (2::int) \<le> int (length [''a'', ''b'']) \<and>
   index (FieldIterator_init [''a'', ''b''] 2) = length_it (FieldIterator_init [''a'', ''b''] 2) \<and>
   next_int (FieldIterator_init [''a'', ''b''] 2) 9 = Inr (9, FieldIterator_init [''a'', ''b''] 2) \<and>
   peek (FieldIterator_init [''a'', ''b''] 2) 0 = Inr None \<and>
   cursor_inv (skip (FieldIterator_init [''a'', ''b''] 2) 5)"
proof -
  have inv: "cursor_inv (FieldIterator_init [''a'', ''b''] 2)"
    by (simp add: cursor_inv_def FieldIterator_init_def)
  show ?thesis
    using inv cursor_invariant [OF inv, of "None" False 9 "Finite 0" False "\<lambda>s. Inl ValueError" "None :: unit option" 5 0 2 "[''a'', ''b'']"]
    by (simp add: FieldIterator_init_def)
qed

text \<open>
  Counterexample to C4 as stated (every read at the end returns the default or
  \<open>None\<close>): with the position at the length, \<open>peek(-1)\<close> returns the last token.
\<close>

theorem peek_negative_offset_counterexample:
  "index (FieldIterator_init [''a''] 1) = length_it (FieldIterator_init [''a''] 1) \<and>
   peek (FieldIterator_init [''a''] 1) (- 1) = Inr (Some ''a'')"
  by (simp add: peek_def FieldIterator_init_def py_getitem_def)

section \<open>Properties of the registry\<close>



section \<open>Properties of the dispatcher\<close>



lemma py_int_empty: "py_int [] = Inl ValueError"
  by (simp add: py_int_def py_strip_def)

lemma dispatch_body_malformed:
  assumes "fs = [] \<or> hd fs = [] \<or> (\<exists>e. py_int (hd fs) = Inl e)"
  shows "dispatch_body d fs = (Inr None, d\<lparr>messages_failed := messages_failed d + 1\<rparr>)"
  using assms py_int_raises_ValueError [of "hd fs"] py_int_empty
  by (auto simp: dispatch_body_def)

lemma dispatch_body_tagged:
  assumes "fs \<noteq> []" and "py_int (hd fs) = Inr tag"
  shows "dispatch_body d fs =
           dispatch_route
             (d\<lparr>messages_processed := messages_processed d + 1,
                message_counts :=
                  AList.update tag (count_of (message_counts d) tag + 1) (message_counts d)\<rparr>)
             tag fs"
  using assms py_int_empty by (auto simp: dispatch_body_def)

lemma dispatch_split:
  "snd (dispatch d t fs) =
     (snd (dispatch_body d fs))\<lparr>processing_time := processing_time (snd (dispatch_body d fs)) + t\<rparr>"
  "fst (dispatch d t fs) = fst (dispatch_body d fs)"
  by (simp_all add: dispatch_def split: prod.splits)

text \<open>What the handler step leaves untouched.\<close>

lemma call_wrapper_method_keeps:
  "call_wrapper_method d n m = Inr d3 \<Longrightarrow>
     registry d3 = registry d \<and> server_version d3 = server_version d \<and>
     getattr_wrapper d3 = getattr_wrapper d \<and> pre_processors d3 = pre_processors d \<and>
     post_processors d3 = post_processors d \<and> messages_failed d3 = messages_failed d \<and>
     unknown_messages d3 = unknown_messages d \<and>
     messages_processed d3 = messages_processed d \<and> message_counts d3 = message_counts d"
  by (auto simp: call_wrapper_method_def split: sum.splits option.splits prod.splits)

lemma invoke_handler_keeps:
  "invoke_handler d cls m = Inr d3 \<Longrightarrow>
     registry d3 = registry d \<and> server_version d3 = server_version d \<and>
     getattr_wrapper d3 = getattr_wrapper d \<and> pre_processors d3 = pre_processors d \<and>
     post_processors d3 = post_processors d \<and>
     unknown_messages d3 = unknown_messages d \<and>
     messages_processed d3 = messages_processed d \<and> message_counts d3 = message_counts d"
  by (auto simp: invoke_handler_def Let_def split: option.splits prod.splits if_splits
        dest!: call_wrapper_method_keeps)

lemma dispatch_route_keeps:
  "registry (snd (dispatch_route d k fs)) = registry d \<and>
   server_version (snd (dispatch_route d k fs)) = server_version d \<and>
   getattr_wrapper (snd (dispatch_route d k fs)) = getattr_wrapper d \<and>
   pre_processors (snd (dispatch_route d k fs)) = pre_processors d \<and>
   post_processors (snd (dispatch_route d k fs)) = post_processors d \<and>
   messages_processed (snd (dispatch_route d k fs)) = messages_processed d \<and>
   message_counts (snd (dispatch_route d k fs)) = message_counts d"
  by (auto simp: dispatch_route_def split: sum.splits option.splits dest!: invoke_handler_keeps)

lemma dispatch_keeps:
  "registry (snd (dispatch d t fs)) = registry d \<and>
   server_version (snd (dispatch d t fs)) = server_version d \<and>
   getattr_wrapper (snd (dispatch d t fs)) = getattr_wrapper d \<and>
   pre_processors (snd (dispatch d t fs)) = pre_processors d \<and>
   post_processors (snd (dispatch d t fs)) = post_processors d"
proof (cases "fs = [] \<or> hd fs = [] \<or> (\<exists>e. py_int (hd fs) = Inl e)")
  case True
  then show ?thesis by (simp add: dispatch_split dispatch_body_malformed)
next
  case False
  then obtain tag where "fs \<noteq> []" and "py_int (hd fs) = Inr tag"
    by (cases "py_int (hd fs)") auto
  then show ?thesis
    by (simp add: dispatch_split dispatch_body_tagged dispatch_route_keeps)
qed


lemma dispatch_all_snoc:
  "dispatch_all d (xs @ [x]) = snd (dispatch (dispatch_all d xs) (fst x) (snd x))"
  by (induction xs arbitrary: d) simp_all



lemma tick_registry_classes:
  "message_classes (tick_registry ga) k =
     (if k = 2 then Some TickSizeMessage else if k = 1 then Some PriceSizeTickMessage else None)"
  by (simp add: tick_registry_def register_message_def register_handler_def
        MessageRegistry_init_def Let_def PriceSizeTickMessage_def TickSizeMessage_def)

lemma py_int_literals:
  "py_int ''1'' = Inr 1" "py_int ''2'' = Inr 2" "py_int ''9999'' = Inr 9999"
  "py_int ''abc'' = Inl ValueError"
  by (simp_all add: py_int_def py_strip_def py_isspace_def is_digit_def digit_val_def)



text \<open>
  Claim C9.  When the first token parses as an integer tag for which no class is
  registered, \<open>get_message_class\<close> returns \<open>None\<close> and \<open>dispatch\<close> returns \<open>None\<close>;
  \<open>unknown_messages\<close> has grown by exactly one, \<open>messages_failed\<close> is unchanged,
  and neither a handler nor a wrapper method was called: the wrapper and the log of
  invocations are as before.  (Pre-processors, of which a new dispatcher has none,
  are taken to return.)
\<close>

theorem unknown_tag:
  assumes "fs \<noteq> []"
      and "py_int (hd fs) = Inr tag"
      and "message_classes (registry d) tag = None"
      and "run_pre_processors (pre_processors d) fs = Inr fs'"
  shows "get_message_class (registry d) tag = None \<and>
         fst (dispatch d t fs) = Inr None \<and>
         unknown_messages (snd (dispatch d t fs)) = unknown_messages d + 1 \<and>
         messages_failed (snd (dispatch d t fs)) = messages_failed d \<and>
         wrapper (snd (dispatch d t fs)) = wrapper d \<and>
         invocations (snd (dispatch d t fs)) = invocations d"
  using assms(3,4)
  by (simp add: dispatch_split dispatch_body_tagged [OF assms(1,2)] dispatch_route_def
        get_message_class_def)

text \<open>
  Witness for C9: the record \<open>9999, data1, data2\<close> of the tests on a new dispatcher
  with the registry of the tags 1 and 2.
\<close>

theorem unknown_tag_witness:
  "py_int (hd [''9999'', ''data1'', ''data2'']) = Inr 9999 \<and>
   message_classes (registry recording_dispatcher) 9999 = None \<and>
   run_pre_processors (pre_processors recording_dispatcher) [''9999'', ''data1'', ''data2''] =
     Inr [''9999'', ''data1'', ''data2''] \<and>
   fst (dispatch recording_dispatcher 0 [''9999'', ''data1'', ''data2'']) = Inr None \<and>
   unknown_messages (snd (dispatch recording_dispatcher 0 [''9999'', ''data1'', ''data2''])) = 1 \<and>
   wrapper (snd (dispatch recording_dispatcher 0 [''9999'', ''data1'', ''data2''])) = [] \<and>
   invocations (snd (dispatch recording_dispatcher 0 [''9999'', ''data1'', ''data2''])) = []"
proof -
  have h1: "[''9999'', ''data1'', ''data2''] \<noteq> []" by simp
  have h2: "py_int (hd [''9999'', ''data1'', ''data2'']) = Inr 9999"
    by (simp add: py_int_literals)
  have h3: "message_classes (registry recording_dispatcher) 9999 = None"
    by (simp add: recording_dispatcher_def MessageDispatcher_init_def tick_registry_classes)
  have h4: "run_pre_processors (pre_processors recording_dispatcher) [''9999'', ''data1'', ''data2''] =
     Inr [''9999'', ''data1'', ''data2'']"
    by (simp add: recording_dispatcher_def MessageDispatcher_init_def)
  have z: "unknown_messages recording_dispatcher = 0" "wrapper recording_dispatcher = []" "invocations recording_dispatcher = []"
    by (simp_all add: recording_dispatcher_def MessageDispatcher_init_def)
  show ?thesis
    using h2 h3 h4 z unknown_tag [OF h1 h2 h3 h4, of 0]
    by simp
qed

lemma skip_inv: "cursor_inv it \<Longrightarrow> cursor_inv (skip it n)"
  by (simp add: cursor_inv_def skip_def)

lemma skip_nonneg: "0 \<le> index it \<Longrightarrow> 0 \<le> n \<Longrightarrow> cursor_inv it \<Longrightarrow> 0 \<le> index (skip it n)"
  by (simp add: cursor_inv_def skip_def)

lemma skip_skip:
  "0 \<le> b \<Longrightarrow> skip (skip it a) b = skip it (a + b)"
  by (simp add: skip_def min_def)

lemma next_field_skip:
  assumes "0 \<le> index it" and "cursor_inv it"
  shows "next_field it (Some []) False =
           Inr (if index it < length_it it then Some (fields_it it ! nat (index it)) else Some [],
                skip it 1)"
  using assms
  by (auto simp: next_field_def cursor_inv_def skip_def py_getitem_def min_def)

lemma next_int_skip:
  assumes "0 \<le> index it" and "cursor_inv it"
  shows "\<exists>v. next_int it d = Inr (v, skip it 1)"
  using py_int_raises_ValueError
  by (auto simp: next_int_def next_field_skip [OF assms] py_int_of_def split: sum.splits)

lemma next_float_skip:
  assumes "0 \<le> index it" and "cursor_inv it"
  shows "\<exists>v. next_float it d = Inr (v, skip it 1)"
  using py_float_raises_ValueError
  by (auto simp: next_float_def next_field_skip [OF assms] py_float_of_def split: sum.splits)


lemma init_inv: "cursor_inv (FieldIterator_init fs 0)" "index (FieldIterator_init fs 0) = 0"
  by (simp_all add: cursor_inv_def FieldIterator_init_def)

lemma price_size_tick_suppressed:
  assumes "length fs \<le> 4 \<or> fs ! 4 = []"
  shows "PriceSizeTickMessage_from_fields fs sv = Inr None"
proof -
  let ?it0 = "FieldIterator_init fs 0"
  have i0: "cursor_inv ?it0" "0 \<le> index ?it0" by (simp_all add: init_inv)
  have i2: "cursor_inv (skip ?it0 2)" "0 \<le> index (skip ?it0 2)"
    using i0 by (simp_all add: skip_inv skip_nonneg)
  have i3: "cursor_inv (skip ?it0 3)" "0 \<le> index (skip ?it0 3)"
    using i0 by (simp_all add: skip_inv skip_nonneg)
  have i4: "cursor_inv (skip ?it0 4)" "0 \<le> index (skip ?it0 4)"
    using i0 by (simp_all add: skip_inv skip_nonneg)
  have i5: "cursor_inv (skip ?it0 5)" "0 \<le> index (skip ?it0 5)"
    using i0 by (simp_all add: skip_inv skip_nonneg)
  obtain r where r: "next_int (skip ?it0 2) 0 = Inr (r, skip ?it0 3)"
    using next_int_skip [OF i2(2) i2(1), of 0] by (auto simp: skip_skip)
  obtain k where k: "next_int (skip ?it0 3) 0 = Inr (k, skip ?it0 4)"
    using next_int_skip [OF i3(2) i3(1), of 0] by (auto simp: skip_skip)
  have p: "next_field (skip ?it0 4) (Some []) False = Inr (Some [], skip ?it0 5)"
    using assms next_field_skip [OF i4(2) i4(1)]
    by (auto simp: skip_skip skip_def FieldIterator_init_def min_def)
  obtain z where z: "next_field (skip ?it0 5) (Some []) False = Inr (z, skip ?it0 6)"
    using next_field_skip [OF i5(2) i5(1)] by (auto simp: skip_skip)
  show ?thesis
    by (simp add: PriceSizeTickMessage_from_fields_def Let_def bind_r_def r k p z truthy_def)
qed

text \<open>
  Claim C5.  When the price token of a tag 1 record (the fifth token) is the empty
  string, or is missing, \<open>PriceSizeTickMessage.from_fields\<close> returns \<open>None\<close>; a
  dispatcher with no pre-processor whose registry has \<open>PriceSizeTickMessage\<close> under
  tag 1 returns \<open>None\<close> for the record, counts no failure, and calls neither a
  handler nor a wrapper method: the wrapper and the log of invocations are as
  before.
\<close>

theorem empty_price_suppressed:
  assumes "length fs \<le> 4 \<or> fs ! 4 = []"
      and "fs \<noteq> []"
      and "py_int (hd fs) = Inr 1"
      and "message_classes (registry d) 1 = Some PriceSizeTickMessage"
      and "pre_processors d = []"
  shows "PriceSizeTickMessage_from_fields fs sv = Inr None \<and>
         fst (dispatch d t fs) = Inr None \<and>
         wrapper (snd (dispatch d t fs)) = wrapper d \<and>
         invocations (snd (dispatch d t fs)) = invocations d \<and>
         messages_failed (snd (dispatch d t fs)) = messages_failed d \<and>
         unknown_messages (snd (dispatch d t fs)) = unknown_messages d"
proof -
  have ff: "from_fields PriceSizeTickMessage fs (server_version d) = Inr None"
    using price_size_tick_suppressed [OF assms(1)] by (simp add: PriceSizeTickMessage_def)
  show ?thesis
    using assms(4,5) ff price_size_tick_suppressed [OF assms(1), of sv]
    by (simp add: dispatch_split dispatch_body_tagged [OF assms(2,3)] dispatch_route_def
          get_message_class_def)
qed

text \<open>
  Witness for C5: the record of the tests with an empty price, on a new dispatcher
  with the registry of the tags 1 and 2.
\<close>

theorem empty_price_suppressed_witness:
  "(length [''1'', ''1'', ''123'', ''1'', '''', ''1000''] \<le> 4 \<or>
      [''1'', ''1'', ''123'', ''1'', '''', ''1000''] ! 4 = []) \<and>
   py_int (hd [''1'', ''1'', ''123'', ''1'', '''', ''1000'']) = Inr 1 \<and>
   message_classes (registry recording_dispatcher) 1 = Some PriceSizeTickMessage \<and>
   pre_processors recording_dispatcher = [] \<and>
   PriceSizeTickMessage_from_fields [''1'', ''1'', ''123'', ''1'', '''', ''1000''] 0 = Inr None \<and>
   fst (dispatch recording_dispatcher 0 [''1'', ''1'', ''123'', ''1'', '''', ''1000'']) = Inr None \<and>
   wrapper (snd (dispatch recording_dispatcher 0 [''1'', ''1'', ''123'', ''1'', '''', ''1000''])) = [] \<and>
   invocations (snd (dispatch recording_dispatcher 0 [''1'', ''1'', ''123'', ''1'', '''', ''1000''])) = []"
proof -
  have h1: "length [''1'', ''1'', ''123'', ''1'', '''', ''1000''] \<le> 4 \<or>
      [''1'', ''1'', ''123'', ''1'', '''', ''1000''] ! 4 = []" by simp
  have h2: "[''1'', ''1'', ''123'', ''1'', '''', ''1000''] \<noteq> []" by simp
  have h3: "py_int (hd [''1'', ''1'', ''123'', ''1'', '''', ''1000'']) = Inr 1"
    by (simp add: py_int_literals)
  have h4: "message_classes (registry recording_dispatcher) 1 = Some PriceSizeTickMessage"
    by (simp add: recording_dispatcher_def MessageDispatcher_init_def tick_registry_classes)
  have h5: "pre_processors recording_dispatcher = []"
    by (simp add: recording_dispatcher_def MessageDispatcher_init_def)
  have w: "wrapper recording_dispatcher = []" "invocations recording_dispatcher = []"
    by (simp_all add: recording_dispatcher_def MessageDispatcher_init_def)
  show ?thesis
    using h1 h3 h4 h5 w empty_price_suppressed [OF h1 h2 h3 h4 h5, of 0 0]
    by simp
qed

text \<open>What the handler step does depends on the wrapper and the registry alone.\<close>

lemma call_wrapper_method_routing:
  assumes "wrapper d2 = wrapper d1" and "getattr_wrapper d2 = getattr_wrapper d1"
  shows "(\<exists>e. call_wrapper_method d1 n m = Inl e \<and> call_wrapper_method d2 n m = Inl e) \<or>
         (\<exists>a b new. call_wrapper_method d1 n m = Inr a \<and> call_wrapper_method d2 n m = Inr b \<and>
            wrapper b = wrapper a \<and>
            invocations a = invocations d1 @ new \<and> invocations b = invocations d2 @ new)"
  using assms
  by (auto simp: call_wrapper_method_def split: sum.splits option.splits prod.splits)

lemma invoke_handler_routing:
  assumes "wrapper d2 = wrapper d1" and "getattr_wrapper d2 = getattr_wrapper d1"
      and "registry d2 = registry d1"
  shows "(\<exists>e. invoke_handler d1 c m = Inl e \<and> invoke_handler d2 c m = Inl e) \<or>
         (\<exists>a b new. invoke_handler d1 c m = Inr a \<and> invoke_handler d2 c m = Inr b \<and>
            wrapper b = wrapper a \<and>
            invocations a = invocations d1 @ new \<and> invocations b = invocations d2 @ new)"
proof (cases "handlers (registry d1) (cls_name c)")
  case None
  then show ?thesis
    using call_wrapper_method_routing [OF assms(1,2), of "cls_name c" m] assms(3)
    by (simp add: invoke_handler_def get_handler_def)
next
  case (Some h)
  then show ?thesis
    using assms by (simp add: invoke_handler_def get_handler_def Let_def split: prod.splits)
qed

lemma dispatch_route_routing:
  assumes "wrapper d2 = wrapper d1" and "getattr_wrapper d2 = getattr_wrapper d1"
      and "registry d2 = registry d1" and "server_version d2 = server_version d1"
      and "pre_processors d2 = pre_processors d1" and "post_processors d2 = post_processors d1"
  shows "fst (dispatch_route d2 k fs) = fst (dispatch_route d1 k fs) \<and>
         wrapper (snd (dispatch_route d2 k fs)) = wrapper (snd (dispatch_route d1 k fs)) \<and>
         (\<exists>new. invocations (snd (dispatch_route d1 k fs)) = invocations d1 @ new \<and>
                 invocations (snd (dispatch_route d2 k fs)) = invocations d2 @ new)"
proof (cases "run_pre_processors (pre_processors d1) fs")
  case (Inl e)
  then show ?thesis using assms by (simp add: dispatch_route_def)
next
  case (Inr fs')
  show ?thesis
  proof (cases "get_message_class (registry d1) k")
    case None
    then show ?thesis using assms Inr by (simp add: dispatch_route_def)
  next
    case (Some cls)
    show ?thesis
    proof (cases "from_fields cls fs' (server_version d1)")
      case (Inl e)
      then show ?thesis using assms Inr Some by (simp add: dispatch_route_def)
    next
      case ff: (Inr mo)
      show ?thesis
      proof (cases mo)
        case None
        then show ?thesis using assms Inr Some ff by (simp add: dispatch_route_def)
      next
        case sm: (Some m)
        have pp: "\<And>a b. invoke_handler d1 cls m = Inr a \<Longrightarrow> invoke_handler d2 cls m = Inr b \<Longrightarrow>
                    post_processors b = post_processors a"
          using assms(6) by (auto dest!: invoke_handler_keeps)
        from invoke_handler_routing [OF assms(1-3), of cls m]
        show ?thesis
        proof (elim disjE exE conjE)
          fix e assume "invoke_handler d1 cls m = Inl e" "invoke_handler d2 cls m = Inl e"
          then show ?thesis
            using assms Inr Some ff sm by (simp add: dispatch_route_def)
        next
          fix a b new
          assume ab: "invoke_handler d1 cls m = Inr a" "invoke_handler d2 cls m = Inr b"
             "wrapper b = wrapper a" "invocations a = invocations d1 @ new"
             "invocations b = invocations d2 @ new"
          then show ?thesis
            using assms Inr Some ff sm pp [OF ab(1,2)]
            by (simp add: dispatch_route_def split: option.splits)
        qed
      qed
    qed
  qed
qed

lemma dispatch_routing:
  assumes "wrapper d2 = wrapper d1" and "getattr_wrapper d2 = getattr_wrapper d1"
      and "registry d2 = registry d1" and "server_version d2 = server_version d1"
      and "pre_processors d2 = pre_processors d1" and "post_processors d2 = post_processors d1"
  shows "fst (dispatch d2 t2 fs) = fst (dispatch d1 t1 fs) \<and>
         wrapper (snd (dispatch d2 t2 fs)) = wrapper (snd (dispatch d1 t1 fs)) \<and>
         (\<exists>new. invocations (snd (dispatch d1 t1 fs)) = invocations d1 @ new \<and>
                 invocations (snd (dispatch d2 t2 fs)) = invocations d2 @ new)"
proof (cases "fs = [] \<or> hd fs = [] \<or> (\<exists>e. py_int (hd fs) = Inl e)")
  case True
  then show ?thesis using assms by (simp add: dispatch_split dispatch_body_malformed)
next
  case False
  then obtain tag where fs: "fs \<noteq> []" "py_int (hd fs) = Inr tag"
    by (cases "py_int (hd fs)") auto
  let ?c1 = "d1\<lparr>messages_processed := messages_processed d1 + 1,
     message_counts := AList.update tag (count_of (message_counts d1) tag + 1) (message_counts d1)\<rparr>"
  let ?c2 = "d2\<lparr>messages_processed := messages_processed d2 + 1,
     message_counts := AList.update tag (count_of (message_counts d2) tag + 1) (message_counts d2)\<rparr>"
  have "fst (dispatch_route ?c2 tag fs) = fst (dispatch_route ?c1 tag fs) \<and>
        wrapper (snd (dispatch_route ?c2 tag fs)) = wrapper (snd (dispatch_route ?c1 tag fs)) \<and>
        (\<exists>new. invocations (snd (dispatch_route ?c1 tag fs)) = invocations ?c1 @ new \<and>
                invocations (snd (dispatch_route ?c2 tag fs)) = invocations ?c2 @ new)"
    by (rule dispatch_route_routing) (simp_all add: assms)
  then show ?thesis
    by (simp add: dispatch_split dispatch_body_tagged [OF fs])
qed

lemma wrapper_method_name_ok: "n \<noteq> [] \<Longrightarrow> \<exists>mn. wrapper_method_name n = Inr mn"
  by (cases n) (simp_all add: wrapper_method_name_def Let_def)

lemma invoke_handler_returns:
  assumes "cls_name c \<noteq> []"
  shows "\<exists>d3. invoke_handler d c m = Inr d3"
proof (cases "handlers (registry d) (cls_name c)")
  case None
  obtain mn where "wrapper_method_name (cls_name c) = Inr mn"
    using wrapper_method_name_ok [OF assms] by blast
  then show ?thesis
    using None
    by (simp add: invoke_handler_def get_handler_def call_wrapper_method_def
          split: option.splits prod.splits)
next
  case (Some h)
  then show ?thesis
    by (simp add: invoke_handler_def get_handler_def Let_def split: prod.splits)
qed

lemma dispatch_route_returns:
  assumes "pre_processors d = []" and "post_processors d = []"
      and "\<forall>k c. message_classes (registry d) k = Some c \<longrightarrow> cls_name c \<noteq> []"
  shows "\<exists>r. fst (dispatch_route d k fs) = Inr r"
proof (cases "message_classes (registry d) k")
  case None
  then show ?thesis using assms(1) by (simp add: dispatch_route_def get_message_class_def)
next
  case (Some c)
  then have n: "cls_name c \<noteq> []" using assms(3) by blast
  show ?thesis
  proof (cases "from_fields c fs (server_version d)")
    case (Inl e)
    then show ?thesis using assms(1) Some by (simp add: dispatch_route_def get_message_class_def)
  next
    case (Inr mo)
    show ?thesis
    proof (cases mo)
      case None
      then show ?thesis
        using assms(1) Some Inr by (simp add: dispatch_route_def get_message_class_def)
    next
      case sm: (Some m)
      obtain d3 where d3: "invoke_handler d c m = Inr d3"
        using invoke_handler_returns [OF n] by blast
      then have "post_processors d3 = []"
        using assms(2) by (auto dest!: invoke_handler_keeps)
      then show ?thesis
        using assms(1) Some Inr sm d3 by (simp add: dispatch_route_def get_message_class_def)
    qed
  qed
qed

text \<open>
  Claim C2.  On a dispatcher with no pre- and post-processors (the registered
  classes being named, as every class is) \<open>dispatch\<close> returns for every record: no
  exception of a decoder or of a handler leaves it.  When the decoder raises, the
  result is \<open>None\<close>, \<open>messages_failed\<close> has grown by one, and nothing was called:
  the wrapper and the log of invocations are as before.  When the registered handler
  raises, \<open>messages_failed\<close> has grown by one and the decoded message is returned.
  Whatever the first record did, the next record is decoded and routed on the same
  dispatcher exactly as on a new dispatcher with the same wrapper, registry and
  server version: same result, same wrapper afterwards, same calls.
\<close>

theorem failure_isolation:
  assumes "pre_processors d = []" and "post_processors d = []"
      and "\<forall>k c. message_classes (registry d) k = Some c \<longrightarrow> cls_name c \<noteq> []"
  shows "(\<exists>r. fst (dispatch d t fs) = Inr r) \<and>
         (fs \<noteq> [] \<and> py_int (hd fs) = Inr k \<and> message_classes (registry d) k = Some c \<and>
          from_fields c fs (server_version d) = Inl e \<longrightarrow>
            fst (dispatch d t fs) = Inr None \<and>
            messages_failed (snd (dispatch d t fs)) = messages_failed d + 1 \<and>
            wrapper (snd (dispatch d t fs)) = wrapper d \<and>
            invocations (snd (dispatch d t fs)) = invocations d) \<and>
         (fs \<noteq> [] \<and> py_int (hd fs) = Inr k \<and> message_classes (registry d) k = Some c \<and>
          from_fields c fs (server_version d) = Inr (Some m) \<and>
          handlers (registry d) (cls_name c) = Some h \<and> h (wrapper d) m = (w', Some e) \<longrightarrow>
            fst (dispatch d t fs) = Inr (Some m) \<and>
            messages_failed (snd (dispatch d t fs)) = messages_failed d + 1 \<and>
            wrapper (snd (dispatch d t fs)) = w' \<and>
            invocations (snd (dispatch d t fs)) = invocations d @ [HandlerCall (cls_name c)]) \<and>
         fst (dispatch (snd (dispatch d t fs)) t2 fs2) =
           fst (dispatch (fresh_like (snd (dispatch d t fs))) t2 fs2) \<and>
         wrapper (snd (dispatch (snd (dispatch d t fs)) t2 fs2)) =
           wrapper (snd (dispatch (fresh_like (snd (dispatch d t fs))) t2 fs2)) \<and>
         invocations (snd (dispatch (snd (dispatch d t fs)) t2 fs2)) =
           invocations (snd (dispatch d t fs)) @
           invocations (snd (dispatch (fresh_like (snd (dispatch d t fs))) t2 fs2))"
proof (intro conjI impI)
  show "\<exists>r. fst (dispatch d t fs) = Inr r"
  proof (cases "fs = [] \<or> hd fs = [] \<or> (\<exists>e. py_int (hd fs) = Inl e)")
    case True
    then show ?thesis by (simp add: dispatch_split dispatch_body_malformed)
  next
    case False
    then obtain tag where fs: "fs \<noteq> []" "py_int (hd fs) = Inr tag"
      by (cases "py_int (hd fs)") auto
    show ?thesis
      using assms
      by (simp add: dispatch_split dispatch_body_tagged [OF fs])
         (rule dispatch_route_returns, simp_all)
  qed
next
  assume a: "fs \<noteq> [] \<and> py_int (hd fs) = Inr k \<and> message_classes (registry d) k = Some c \<and>
          from_fields c fs (server_version d) = Inl e"
  then have fs: "fs \<noteq> []" "py_int (hd fs) = Inr k" by simp_all
  from a assms(1)
  show "fst (dispatch d t fs) = Inr None"
    and "messages_failed (snd (dispatch d t fs)) = messages_failed d + 1"
    and "wrapper (snd (dispatch d t fs)) = wrapper d"
    and "invocations (snd (dispatch d t fs)) = invocations d"
    by (simp_all add: dispatch_split dispatch_body_tagged [OF fs] dispatch_route_def
          get_message_class_def)
next
  assume a: "fs \<noteq> [] \<and> py_int (hd fs) = Inr k \<and> message_classes (registry d) k = Some c \<and>
          from_fields c fs (server_version d) = Inr (Some m) \<and>
          handlers (registry d) (cls_name c) = Some h \<and> h (wrapper d) m = (w', Some e)"
  then have fs: "fs \<noteq> []" "py_int (hd fs) = Inr k" by simp_all
  from a assms(1,2)
  show "fst (dispatch d t fs) = Inr (Some m)"
    and "messages_failed (snd (dispatch d t fs)) = messages_failed d + 1"
    and "wrapper (snd (dispatch d t fs)) = w'"
    and "invocations (snd (dispatch d t fs)) = invocations d @ [HandlerCall (cls_name c)]"
    by (simp_all add: dispatch_split dispatch_body_tagged [OF fs] dispatch_route_def
          get_message_class_def invoke_handler_def get_handler_def Let_def)
next
  let ?d' = "snd (dispatch d t fs)"
  have k: "wrapper ?d' = wrapper (fresh_like ?d')"
     "getattr_wrapper ?d' = getattr_wrapper (fresh_like ?d')"
     "registry ?d' = registry (fresh_like ?d')"
     "server_version ?d' = server_version (fresh_like ?d')"
     "pre_processors ?d' = pre_processors (fresh_like ?d')"
     "post_processors ?d' = post_processors (fresh_like ?d')"
     "invocations (fresh_like ?d') = []"
    using assms(1,2) dispatch_keeps [of d t fs]
    by (simp_all add: fresh_like_def MessageDispatcher_init_def)
  from dispatch_routing [OF k(1-6), of t2 fs2 t2]
  show "fst (dispatch ?d' t2 fs2) = fst (dispatch (fresh_like ?d') t2 fs2)"
    and "wrapper (snd (dispatch ?d' t2 fs2)) = wrapper (snd (dispatch (fresh_like ?d') t2 fs2))"
    and "invocations (snd (dispatch ?d' t2 fs2)) =
           invocations ?d' @ invocations (snd (dispatch (fresh_like ?d') t2 fs2))"
    by (auto simp: k(7))
qed

lemmas cursor_eval = FieldIterator_init_def skip_def next_int_def next_float_def next_field_def
  py_getitem_def py_int_of_def py_float_of_def bind_r_def truthy_def Let_def

lemmas number_eval = py_int_def py_float_def py_strip_def py_isspace_def is_digit_def
  digit_val_def py_float_abs_def py_float_unsigned_def is_exp_char_def py_digits_opt_def pow10_def

lemma py_lower_examples:
  "py_lower ''abc'' = ''abc''" "py_lower ''2500.5'' = ''2500.5''"
  by code_simp+

lemma py_float_examples:
  "py_float ''abc'' = Inl ValueError" "py_float ''2500.5'' = Inr (Finite (5001 / 2))"
  by (simp_all add: number_eval py_lower_examples)

lemma py_int_examples: "py_int ''789'' = Inr 789" "py_int ''5'' = Inr 5" "py_int ''123'' = Inr 123"
  by (simp_all add: number_eval)

lemma decode_bad_price:
  "PriceSizeTickMessage_from_fields [''1'', ''1'', ''123'', ''1'', ''abc'', ''1000''] 0 = Inl ValueError"
  by (simp add: PriceSizeTickMessage_from_fields_def cursor_eval py_float_examples
        py_int_examples py_int_literals)

lemma decode_tick_size:
  "TickSizeMessage_from_fields [''2'', ''789'', ''5'', ''2500.5''] 0 =
     Inr (Some \<lparr>class_of = ''TickSizeMessage'',
                attrs = [(''req_id'', VInt 789), (''tick_type'', VInt 5),
                         (''size'', VFloat (Finite (5001 / 2)))]\<rparr>)"
  by (simp add: TickSizeMessage_from_fields_def cursor_eval py_float_examples
        py_int_examples py_int_literals)

lemma tick_registry_handlers:
  "handlers (tick_registry ga) ''TickSizeMessage'' = Some (handle_tick_size ga)"
  by (simp add: tick_registry_def register_message_def register_handler_def
        MessageRegistry_init_def Let_def PriceSizeTickMessage_def TickSizeMessage_def)

lemma tick_registry_named:
  "\<forall>k c. message_classes (registry failing_dispatcher) k = Some c \<longrightarrow> cls_name c \<noteq> []"
  by (auto simp: failing_dispatcher_def MessageDispatcher_init_def tick_registry_classes
        PriceSizeTickMessage_def TickSizeMessage_def split: if_splits)

text \<open>
  Witness for C2, on a new dispatcher whose wrapper methods all raise.  The record
  with the price \<open>abc\<close> makes the decoder raise \<open>ValueError\<close>: the result is
  \<open>None\<close>, one failure is counted, the wrapper saw no call.  The tick size record of
  the tests decodes, its handler raises: the message is returned and one failure is
  counted.  After the failed record the tick size record is handled as on a new
  dispatcher.
\<close>

theorem failure_isolation_witness:
  "pre_processors failing_dispatcher = [] \<and> post_processors failing_dispatcher = [] \<and>
   py_int (hd [''1'', ''1'', ''123'', ''1'', ''abc'', ''1000'']) = Inr 1 \<and>
   message_classes (registry failing_dispatcher) 1 = Some PriceSizeTickMessage \<and>
   from_fields PriceSizeTickMessage [''1'', ''1'', ''123'', ''1'', ''abc'', ''1000'']
     (server_version failing_dispatcher) = Inl ValueError \<and>
   fst (dispatch failing_dispatcher 0 [''1'', ''1'', ''123'', ''1'', ''abc'', ''1000'']) = Inr None \<and>
   messages_failed (snd (dispatch failing_dispatcher 0 [''1'', ''1'', ''123'', ''1'', ''abc'', ''1000''])) = 1 \<and>
   wrapper (snd (dispatch failing_dispatcher 0 [''1'', ''1'', ''123'', ''1'', ''abc'', ''1000''])) = [] \<and>
   py_int (hd [''2'', ''789'', ''5'', ''2500.5'']) = Inr 2 \<and>
   message_classes (registry failing_dispatcher) 2 = Some TickSizeMessage \<and>
   handlers (registry failing_dispatcher) (cls_name TickSizeMessage) = Some (handle_tick_size failing_getattr) \<and>
   messages_failed (snd (dispatch failing_dispatcher 0 [''2'', ''789'', ''5'', ''2500.5''])) = 1 \<and>
   wrapper (snd (dispatch failing_dispatcher 0 [''2'', ''789'', ''5'', ''2500.5''])) =
     [(''tickSize'', [VInt 789, VInt 5, VFloat (Finite (5001 / 2))])] \<and>
   fst (dispatch (snd (dispatch failing_dispatcher 0 [''1'', ''1'', ''123'', ''1'', ''abc'', ''1000'']))
          0 [''2'', ''789'', ''5'', ''2500.5'']) =
     fst (dispatch (fresh_like (snd (dispatch failing_dispatcher 0 [''1'', ''1'', ''123'', ''1'', ''abc'', ''1000''])))
          0 [''2'', ''789'', ''5'', ''2500.5''])"
proof -
  have h1: "pre_processors failing_dispatcher = []" and h2: "post_processors failing_dispatcher = []"
    by (simp_all add: failing_dispatcher_def MessageDispatcher_init_def)
  have z: "messages_failed failing_dispatcher = 0" "wrapper failing_dispatcher = []" "server_version failing_dispatcher = 0"
    "registry failing_dispatcher = tick_registry failing_getattr"
    by (simp_all add: failing_dispatcher_def MessageDispatcher_init_def)
  have a: "from_fields PriceSizeTickMessage [''1'', ''1'', ''123'', ''1'', ''abc'', ''1000''] 0
             = Inl ValueError"
    by (simp add: PriceSizeTickMessage_def decode_bad_price)
  have b: "from_fields TickSizeMessage [''2'', ''789'', ''5'', ''2500.5''] 0 =
     Inr (Some \<lparr>class_of = ''TickSizeMessage'',
                attrs = [(''req_id'', VInt 789), (''tick_type'', VInt 5),
                         (''size'', VFloat (Finite (5001 / 2)))]\<rparr>)"
    by (simp add: TickSizeMessage_def decode_tick_size)
  have c: "handle_tick_size failing_getattr []
             \<lparr>class_of = ''TickSizeMessage'',
              attrs = [(''req_id'', VInt 789), (''tick_type'', VInt 5),
                       (''size'', VFloat (Finite (5001 / 2)))]\<rparr> =
           ([(''tickSize'', [VInt 789, VInt 5, VFloat (Finite (5001 / 2))])], Some (Raised ''boom''))"
    by (simp add: handle_tick_size_def call_method_def failing_getattr_def msg_attr_def)
  have n: "cls_name TickSizeMessage = ''TickSizeMessage''"
    by (simp add: TickSizeMessage_def)
  show ?thesis
    using h1 h2 z a b c
      failure_isolation [OF h1 h2 tick_registry_named,
        where fs = "[''1'', ''1'', ''123'', ''1'', ''abc'', ''1000'']" and k = 1
          and c = PriceSizeTickMessage and e = ValueError and t = 0 and ?t2.0 = 0
          and ?fs2.0 = "[''2'', ''789'', ''5'', ''2500.5'']"]
      failure_isolation [OF h1 h2 tick_registry_named,
        where fs = "[''2'', ''789'', ''5'', ''2500.5'']" and k = 2
          and c = TickSizeMessage and e = "Raised ''boom''" and t = 0
          and h = "handle_tick_size failing_getattr"
          and m = "\<lparr>class_of = ''TickSizeMessage'',
                attrs = [(''req_id'', VInt 789), (''tick_type'', VInt 5),
                         (''size'', VFloat (Finite (5001 / 2)))]\<rparr>"
          and w' = "[(''tickSize'', [VInt 789, VInt 5, VFloat (Finite (5001 / 2))])]"]
    by (simp add: py_int_literals tick_registry_classes tick_registry_handlers n)
qed

section \<open>Properties of the order and contract detail blocks\<close>

lemma skip_index:
  "cursor_inv it \<Longrightarrow> 0 \<le> n \<Longrightarrow> index (skip it n) = min (index it + n) (length_it it)"
  by (simp add: skip_def)













text \<open>
  With pydantic's assignment the block of version 164 does not get past its first
  line: \<open>minSize\<close> is not a field of \<open>ContractDetails\<close> (the field is
  \<open>min_size\<close>), so the assignment raises once the first token is read.
\<close>

lemma details_block_raises:
  assumes "0 \<le> index it" and "cursor_inv it" and "164 \<le> sv"
  shows "parse_contract_details_version_fields
           (model_setattr ContractDetails_fields validate_field) details it sv =
         (Inl ValidationError, skip it 1)"
proof -
  obtain a where a: "next_float it (Finite 0) = Inr (a, skip it 1)"
    using next_float_skip [OF assms(1,2)] by blast
  show ?thesis
    using assms(3)
    by (simp add: parse_contract_details_version_fields_def a model_setattr_def
          ContractDetails_fields_def)
qed




section \<open>Properties of the contract resolver\<close>

lemmas validator_eval = v_int_def v_str_def v_bool_def v_decimal_def v_enum_str_def
  v_enum_int_def v_literal_def v_optional_def v_list_def v_model_def empty_to_none_def
  option_type_required_def

lemmas enum_eval = SecurityType_values_def OptionType_values_def OrderAction_values_def
  Exchange_values_def Currency_values_def SecurityIdType_values_def

lemma unknown_tag_no_member: "specialized_class c ''XYZ'' = None"
  by (simp add: specialized_class_def)

lemma base_rejects_unknown_type:
  "model_validate ''Contract'' (Contract_fields c) [(''security_type'', VStr ''XYZ'')] =
     Inl ValidationError"
  by (simp add: model_validate_def Contract_fields_def validator_eval enum_eval)

text \<open>
  Claim C8.  For the dictionary \<open>{"security_type": "XYZ"}\<close> of the spec the
  discriminated union has no member, the \<open>except\<close> branch validates the same
  dictionary as a base \<open>Contract\<close>, whose field \<open>security_type\<close> is a
  \<open>SecurityType\<close> or \<open>None\<close> and rejects \<open>XYZ\<close> as well: \<open>ValidationError\<close>
  leaves \<open>ContractAdapter.parse\<close>, where the claim and the docstring of the method
  have the base contract returned.
\<close>

theorem unknown_security_type_raises:
  "ContractAdapter_parse c [(''security_type'', VStr ''XYZ'')] = Inl ValidationError"
  by (simp add: ContractAdapter_parse_def validate_specialized_def unknown_tag_no_member
        base_rejects_unknown_type)

lemma option_example:
  "ContractAdapter_parse c
     [(''security_type'', VStr ''OPT''), (''strike'', VInt 100), (''option_type'', VStr ''C'')] =
   Inr (VObj ''Option''
     [(''contract_id'', VInt 0),
      (''symbol'', VNone),
      (''security_type'', VStr ''OPT''),
      (''last_trade_date_or_contract_month'', VNone),
      (''strike'', VDecimal 100),
      (''option_type'', VStr ''C''),
      (''multiplier'', VInt 100),
      (''exchange'', VStr ''SMART''),
      (''primary_exchange'', VNone),
      (''currency'', VStr ''USD''),
      (''local_symbol'', VNone),
      (''trading_class'', VNone),
      (''include_expired'', VBool False),
      (''security_id_type'', VNone),
      (''security_id'', VNone),
      (''description'', VNone),
      (''issuer_id'', VNone),
      (''combo_legs_description'', VNone),
      (''combo_legs'', VList []),
      (''delta_neutral_contract'', VNone)])"
  by (simp add: ContractAdapter_parse_def validate_specialized_def specialized_class_def
        model_validate_def Option_fields_def override_fields_def Contract_fields_def
        validator_eval enum_eval)

lemma negative_strike_falls_back:
  "ContractAdapter_parse c
     [(''security_type'', VStr ''OPT''), (''strike'', VInt (- 1)), (''option_type'', VStr ''C'')] =
   model_validate ''Contract'' (Contract_fields c)
     [(''security_type'', VStr ''OPT''), (''strike'', VInt (- 1)), (''option_type'', VStr ''C'')]"
  by (simp add: ContractAdapter_parse_def validate_specialized_def specialized_class_def
        model_validate_def Option_fields_def override_fields_def Contract_fields_def
        validator_eval enum_eval)

text \<open>
  Whenever the discriminator is absent, is no string, or selects no member of the
  union, the result of \<open>parse\<close> is that of the validation as a base \<open>Contract\<close>,
  be it a contract or an exception.
\<close>

lemma parse_without_member:
  assumes "\<forall>tag. map_of data ''security_type'' = Some (VStr tag) \<longrightarrow> specialized_class c tag = None"
  shows "ContractAdapter_parse c data = model_validate ''Contract'' (Contract_fields c) data"
  using assms
  by (auto simp: ContractAdapter_parse_def validate_specialized_def
        split: option.splits pyval.splits)

text \<open>
  A second way out of \<open>parse\<close>: for a Forex dictionary whose \<open>pair\<close> is a number,
  \<open>len(pair)\<close> in \<open>handle_pair\<close> raises \<open>TypeError\<close>, which \<open>except
  ValidationError\<close> does not catch.
\<close>

lemma forex_pair_number_raises:
  "ContractAdapter_parse c [(''security_type'', VStr ''CASH''), (''pair'', VInt 123456)] =
     Inl TypeError"
  by (simp add: ContractAdapter_parse_def validate_specialized_def specialized_class_def
        Forex_handle_pair_def py_truthy_def py_len_def bind_r_def)

end
